theory Spec2Isabelle
  imports Complex_Main "HOL-Library.Word" "HOL-Library.Sublist"
begin

unbundle bit_operations_syntax

section \<open>Strings\<close>

text \<open>
  A JavaScript string is a sequence of UTF-16 code units. The model uses \<open>string\<close>, whose
  characters are the code units 0 to 255 (the Latin-1 range); \<open>charCode\<close> is
  \<open>charCodeAt\<close>. The predicates below are the character classes of the regular
  expressions of \<open>lib/ai/backboard.ts\<close>, restricted to that range:
  \<open>\d\<close> is \<open>[0-9]\<close>, \<open>\w\<close> is \<open>[A-Za-z0-9_]\<close>, and \<open>\s\<close> is the white space
  and line terminators, of which tab, line feed, vertical tab, form feed, carriage return,
  space and the no-break space (160) are below 256.
\<close>

definition charCode :: "char \<Rightarrow> nat" where
  "charCode c = of_char c"

definition isDigit :: "char \<Rightarrow> bool" where
  "isDigit c = (48 \<le> charCode c \<and> charCode c \<le> 57)"

definition isUpperAscii :: "char \<Rightarrow> bool" where
  "isUpperAscii c = (65 \<le> charCode c \<and> charCode c \<le> 90)"

definition isLowerAscii :: "char \<Rightarrow> bool" where
  "isLowerAscii c = (97 \<le> charCode c \<and> charCode c \<le> 122)"

definition isWordChar :: "char \<Rightarrow> bool" where
  "isWordChar c = (isUpperAscii c \<or> isLowerAscii c \<or> isDigit c \<or> charCode c = 95)"

definition isSpace :: "char \<Rightarrow> bool" where
  "isSpace c = ((9 \<le> charCode c \<and> charCode c \<le> 13) \<or> charCode c = 32 \<or> charCode c = 160)"

text \<open>
  \<open>String.prototype.toLowerCase\<close> on the code units below 256: \<open>A\<close> to \<open>Z\<close> and the
  Latin-1 capitals 192 to 222 (without the multiplication sign 215) move up by 32, which
  sets bit 5 of the code unit; every other code unit stays. \<open>toUpperCase\<close> is only
  applied by the source to the first letter of an ASCII instrument name.
\<close>

definition hasLowerCase :: "char \<Rightarrow> bool" where
  "hasLowerCase c =
     (isUpperAscii c \<or> (192 \<le> charCode c \<and> charCode c \<le> 222 \<and> charCode c \<noteq> 215))"

definition toLowerChar :: "char \<Rightarrow> char" where
  "toLowerChar c =
     (if hasLowerCase c
      then (case c of Char b0 b1 b2 b3 b4 b5 b6 b7 \<Rightarrow> Char b0 b1 b2 b3 b4 True b6 b7)
      else c)"

definition toLowerCase :: "string \<Rightarrow> string" where
  "toLowerCase s = map toLowerChar s"

definition toUpperAsciiChar :: "char \<Rightarrow> char" where
  "toUpperAsciiChar c =
     (if isLowerAscii c
      then (case c of Char b0 b1 b2 b3 b4 b5 b6 b7 \<Rightarrow> Char b0 b1 b2 b3 b4 False b6 b7)
      else c)"

text \<open>\<open>s.includes(t)\<close>: \<open>t\<close> occurs in \<open>s\<close> as a contiguous substring.\<close>

fun isPrefixOf :: "string \<Rightarrow> string \<Rightarrow> bool" where
  "isPrefixOf [] s = True"
| "isPrefixOf (c # t) [] = False"
| "isPrefixOf (c # t) (d # s) = (c = d \<and> isPrefixOf t s)"

fun includesStr :: "string \<Rightarrow> string \<Rightarrow> bool" where
  "includesStr [] t = isPrefixOf t []"
| "includesStr (c # s) t = (isPrefixOf t (c # s) \<or> includesStr s t)"

text \<open>
  \<open>s.split(c)\<close> for a one-character separator: the pieces between the occurrences of
  \<open>c\<close>; the result always has one piece more than there are separators.
\<close>

fun splitStr :: "char \<Rightarrow> string \<Rightarrow> string list" where
  "splitStr sep [] = [[]]"
| "splitStr sep (c # s) =
     (if c = sep then [] # splitStr sep s
      else (case splitStr sep s of p # ps \<Rightarrow> (c # p) # ps | [] \<Rightarrow> [[c]]))"

section \<open>Regular expressions\<close>

text \<open>
  The fragment of JavaScript regular expressions that the source uses: literals,
  character classes, sequence, alternation, the greedy quantifiers \<open>?\<close>, \<open>*\<close> and
  \<open>+\<close>, and the anchors \<open>^\<close> and \<open>$\<close> (no multiline flag). Groups only group
  here: the source reads a capture in the "suggest" branch of the mock alone, and there the
  capture is recovered from the matched text.
\<close>

datatype regex =
    Lit string
  | Class "char \<Rightarrow> bool"
  | Seq regex regex
  | Alt regex regex
  | Opt regex
  | Star regex
  | Plus regex
  | Bol
  | Eol

text \<open>
  A position is the rest of the input together with the flag "nothing consumed yet, and the
  match attempt started at index 0", which is what \<open>^\<close> tests.
\<close>

type_synonym pos = "bool \<times> string"

text \<open>
  \<open>star f n p\<close> is the greedy iteration of the matcher \<open>f\<close> from \<open>p\<close>: one more round
  first, then stopping. A round that consumes nothing is rejected, as the specification
  of the language's RepeatMatcher does, so at most \<open>length (snd p)\<close> rounds happen and that
  many are allowed.
\<close>

primrec star :: "(pos \<Rightarrow> pos list) \<Rightarrow> nat \<Rightarrow> pos \<Rightarrow> pos list" where
  "star f 0 p = [p]"
| "star f (Suc n) p =
     concat (map (star f n) (filter (\<lambda>q. length (snd q) < length (snd p)) (f p))) @ [p]"

text \<open>
  \<open>rem r p\<close> lists the positions at which a match of \<open>r\<close> that starts at \<open>p\<close> can
  end, in the order in which backtracking tries them.
\<close>

primrec rem :: "regex \<Rightarrow> pos \<Rightarrow> pos list" where
  "rem (Lit l) p =
     (if isPrefixOf l (snd p) then [(fst p \<and> l = [], drop (length l) (snd p))] else [])"
| "rem (Class P) p =
     (case snd p of [] \<Rightarrow> [] | c # s \<Rightarrow> if P c then [(False, s)] else [])"
| "rem (Seq r1 r2) p = concat (map (rem r2) (rem r1 p))"
| "rem (Alt r1 r2) p = rem r1 p @ rem r2 p"
| "rem (Opt r) p = rem r p @ [p]"
| "rem (Star r) p = star (rem r) (length (snd p)) p"
| "rem (Plus r) p = concat (map (\<lambda>q. star (rem r) (length (snd q)) q) (rem r p))"
| "rem Bol p = (if fst p then [p] else [])"
| "rem Eol p = (if snd p = [] then [p] else [])"

text \<open>
  \<open>search r b s\<close> tries the start indices from left to right and returns the first match:
  the matched text (\<open>match[0]\<close>) and the input after it.
\<close>

fun search :: "regex \<Rightarrow> bool \<Rightarrow> string \<Rightarrow> (string \<times> string) option" where
  "search r b [] = (case rem r (b, []) of [] \<Rightarrow> None | q # qs \<Rightarrow> Some ([], []))"
| "search r b (c # s) =
     (case rem r (b, c # s) of
        [] \<Rightarrow> search r False s
      | q # qs \<Rightarrow> Some (take (length (c # s) - length (snd q)) (c # s), snd q))"

text \<open>\<open>regex.test(s)\<close> and \<open>s.match(regex)[0]\<close> for a regex without the \<open>g\<close> flag.\<close>

definition test :: "regex \<Rightarrow> string \<Rightarrow> bool" where
  "test r s = (search r True s \<noteq> None)"

definition match0 :: "regex \<Rightarrow> string \<Rightarrow> string option" where
  "match0 r s = map_option fst (search r True s)"

fun seqs :: "regex list \<Rightarrow> regex" where
  "seqs [] = Lit []"
| "seqs [r] = r"
| "seqs (r # rs) = Seq r (seqs rs)"

fun alts :: "regex list \<Rightarrow> regex" where
  "alts [] = Class (\<lambda>c. False)"
| "alts [r] = r"
| "alts (r # rs) = Alt r (alts rs)"

definition oneOf :: "string list \<Rightarrow> regex" where
  "oneOf ws = alts (map Lit ws)"

definition sp1 :: regex where "sp1 = Plus (Class isSpace)"
definition sp0 :: regex where "sp0 = Star (Class isSpace)"
definition digits1 :: regex where "digits1 = Plus (Class isDigit)"
definition word1 :: regex where "word1 = Plus (Class isWordChar)"


text \<open>The optional groups \<open>(the\s+)?\<close>, \<open>(a\s+)?\<close> and \<open>(\w+\s+)?\<close>.\<close>

definition optThe :: regex where "optThe = Opt (seqs [Lit ''the'', sp1])"
definition optA :: regex where "optA = Opt (seqs [Lit ''a'', sp1])"
definition optWord :: regex where "optWord = Opt (seqs [word1, sp1])"

section \<open>Model provider configuration (lib/ai/backboard.ts)\<close>

datatype ModelProvider = openai | google | anthropic | cohere | xai

record ModelConfig =
  provider :: ModelProvider
  modelName :: string
  description :: string

datatype TaskType = creative | technical | analytical | fallback

text \<open>A \<open>TaskType\<close> is a string in the source; \<open>MODEL_CONFIGS\<close> is indexed by it.\<close>

fun taskTypeName :: "TaskType \<Rightarrow> string" where
  "taskTypeName creative = ''creative''"
| "taskTypeName technical = ''technical''"
| "taskTypeName analytical = ''analytical''"
| "taskTypeName fallback = ''fallback''"

definition MODEL_CONFIGS :: "(string \<times> ModelConfig) list" where
  "MODEL_CONFIGS =
    [(''creative'',
        \<lparr>provider = google, modelName = ''gemini-2.5-flash'',
         description = ''Google Gemini 2.5 Flash - Creative & musical tasks''\<rparr>),
     (''technical'',
        \<lparr>provider = openai, modelName = ''gpt-4o'',
         description = ''OpenAI GPT-4o - Technical & precise tasks''\<rparr>),
     (''analytical'',
        \<lparr>provider = anthropic, modelName = ''claude-sonnet-4-20250514'',
         description = ''Anthropic Claude Sonnet 4 - Analysis & explanations''\<rparr>),
     (''fallback'',
        \<lparr>provider = openai, modelName = ''gpt-4o-mini'',
         description = ''OpenAI GPT-4o Mini - Fast fallback''\<rparr>)]"

definition getModelForTask :: "TaskType \<Rightarrow> ModelConfig" where
  "getModelForTask taskType =
     (case map_of MODEL_CONFIGS (taskTypeName taskType) of
        Some config \<Rightarrow> config
      | None \<Rightarrow>
          \<lparr>provider = openai, modelName = ''gpt-4o-mini'',
           description = ''OpenAI GPT-4o Mini - Fast fallback''\<rparr>)"

section \<open>Task classification (lib/ai/backboard.ts)\<close>

definition analyticalPatterns :: "regex list" where
  "analyticalPatterns =
    [Lit ''explain'',
     seqs [Lit ''what'', sp1, oneOf [''is'', ''are'', ''does'']],
     seqs [Lit ''how'', sp1, oneOf [''do'', ''does'', ''can'', ''should'']],
     seqs [Lit ''why'', sp1, oneOf [''is'', ''are'', ''does'', ''do'']],
     seqs [Lit ''tell'', sp1, Lit ''me'', sp1, Lit ''about''],
     Lit ''analyze'',
     Lit ''analyse'',
     Lit ''feedback'',
     Lit ''review'',
     Lit ''critique'',
     Lit ''improve'',
     Lit ''better'',
     Lit ''theory'',
     Lit ''teach'',
     Lit ''learn'',
     Lit ''understand'',
     seqs [Lit ''difference'', sp1, Lit ''between''],
     Lit ''compare'',
     seqs [Lit ''help'', sp1, Lit ''me'', sp1, Lit ''understand'']]"

definition creativePatterns :: "regex list" where
  "creativePatterns =
    [seqs [Lit ''make'', sp1, optA, optWord,
       oneOf [''beat'', ''melody'', ''chord'', ''bass'', ''pattern'', ''music'', ''song'', ''track'']],
     seqs [Lit ''create'', sp1, optA, optWord,
       oneOf [''beat'', ''melody'', ''chord'', ''bass'', ''pattern'', ''music'', ''song'', ''track'']],
     seqs [Lit ''generate'', sp1, optA, optWord, oneOf [''beat'', ''melody'', ''music'', ''pattern'']],
     seqs [Lit ''write'', sp1, optA, optWord, oneOf [''melody'', ''chord'', ''bass'', ''song'']],
     seqs [Lit ''compose'', sp1, optA, optWord, Opt (oneOf [''melody'', ''beat'', ''song'', ''piece''])],
     seqs [Lit ''add'', sp1, optA, optWord,
       oneOf [''melody'', ''chord'', ''piano'', ''bass'', ''lead'', ''pad'', ''synth'']],
     alts [seqs [Lit ''hip'', sp0, Lit ''hop''], Lit ''trap'', Lit ''house'', Lit ''edm'',
       Lit ''jazz'', Lit ''funk'', Lit ''rock'', Lit ''pop'', Lit ''lofi'', Lit ''rap''],
     alts [seqs [Lit ''boom'', sp0, Lit ''bap''], Lit ''drill'', Lit ''phonk'', Lit ''reggaeton'',
       Lit ''r&b'', Lit ''soul''],
     oneOf [''catchy'', ''groovy'', ''chill'', ''energetic'', ''dark'', ''bright'', ''sad'',
       ''happy'', ''upbeat''],
     Lit ''suggest'',
     oneOf [''improvise'', ''freestyle'', ''jam''],
     seqs [Lit ''piano'', sp1, oneOf [''melody'', ''part'', ''line'']],
     seqs [Lit ''drum'', sp1, oneOf [''beat'', ''pattern'', ''loop'']],
     seqs [Lit ''bass'', sp1, oneOf [''line'', ''pattern'', ''groove'']]]"

definition technicalPatterns :: "regex list" where
  "technicalPatterns =
    [seqs [oneOf [''set'', ''change'', ''adjust'', ''make''], sp1, optThe, oneOf [''bpm'', ''tempo'']],
     seqs [Lit ''bpm'', sp1, oneOf [''to'', ''=''], sp0, digits1],
     seqs [Lit ''tempo'', sp1, oneOf [''to'', ''=''], sp0, digits1],
     seqs [digits1, sp0, Lit ''bpm''],
     seqs [oneOf [''increase'', ''decrease'', ''raise'', ''lower'', ''bump''], sp1, optThe,
       oneOf [''bpm'', ''tempo'', ''volume'', ''pan'']],
     seqs [oneOf [''bpm'', ''tempo'', ''volume'', ''pan''], sp1, oneOf [''up'', ''down'']],
     seqs [Lit ''by'', sp1, digits1, sp0, Opt (Lit ''bpm'')],
     seqs [oneOf [''faster'', ''slower''], sp0, Opt (oneOf [''tempo'', ''bpm''])],
     seqs [Lit ''speed'', sp1, oneOf [''up'', ''down'']],
     seqs [oneOf [''double'', ''half'', ''halve''], sp1, optThe, oneOf [''tempo'', ''bpm'', ''speed'']],
     seqs [Bol, oneOf [''play'', ''stop'', ''pause'', ''record''], Eol],
     seqs [Bol, Lit ''play'', Eol],
     seqs [Bol, Lit ''stop'', Eol],
     oneOf [''mute'', ''solo'', ''unmute''],
     seqs [Lit ''volume'', sp1, oneOf [''to'', ''up'', ''down'']],
     seqs [Lit ''pan'', sp1, oneOf [''to'', ''left'', ''right'']],
     seqs [Lit ''delete'', sp1, optThe, oneOf [''pattern'', ''note'', ''clip'', ''track'', ''channel'']],
     seqs [Lit ''remove'', sp1, optThe, oneOf [''pattern'', ''note'', ''clip'', ''track'', ''channel'']],
     seqs [Lit ''move'', sp1, optThe, oneOf [''clip'', ''pattern'', ''note'']],
     seqs [Lit ''copy'', sp1, optThe, oneOf [''clip'', ''pattern'', ''note'']],
     Lit ''duplicate'',
     Lit ''resize'',
     seqs [Lit ''extend'', sp1, optThe, oneOf [''melody'', ''pattern'', ''clip'', ''beat'', ''track'']],
     seqs [Lit ''shorten'', sp1, optThe, oneOf [''melody'', ''pattern'', ''clip'', ''beat'', ''track'']],
     seqs [Lit ''make'', sp1, alts [Lit ''it'', seqs [Lit ''the'', sp1, word1]], sp1,
       oneOf [''longer'', ''shorter'']],
     seqs [digits1, sp0, Lit ''bar'', Opt (Lit ''s''), sp0, oneOf [''longer'', ''shorter'']],
     seqs [oneOf [''longer'', ''shorter''], sp0, Lit ''by'', sp0, digits1],
     seqs [Lit ''set'', sp1, optThe, oneOf [''loop'', ''position'', ''start'', ''end'']],
     seqs [Lit ''loop'', sp1, oneOf [''from'', ''to'', ''at'']],
     seqs [Lit ''change'', sp1, optThe, oneOf [''volume'', ''pan'', ''pitch'', ''key'', ''scale'']],
     seqs [Lit ''adjust'', sp1, optThe, oneOf [''volume'', ''pan'', ''pitch'', ''key'', ''scale'']],
     Lit ''modify'',
     Lit ''edit'',
     Lit ''update'',
     Lit ''toggle'',
     seqs [Lit ''clear'', sp1, optThe, oneOf [''pattern'', ''clip'', ''track'', ''all'']],
     oneOf [''undo'', ''redo''],
     Lit ''export'',
     oneOf [''save'', ''load''],
     Lit ''rename'',
     Lit ''quantize'',
     Lit ''snap'']"

text \<open>
  \<open>classifyTask\<close>: the number check, then the three pattern lists in the order
  analytical, creative, technical, then the two defaults. Each \<open>for\<close> loop returns at the
  first pattern that matches, which is \<open>list_ex\<close> over the list.
\<close>

definition classifyTask :: "string \<Rightarrow> TaskType" where
  "classifyTask userInput =
     (let input = toLowerCase userInput in
      if test digits1 input then technical
      else if list_ex (\<lambda>pattern. test pattern input) analyticalPatterns then analytical
      else if list_ex (\<lambda>pattern. test pattern input) creativePatterns then creative
      else if list_ex (\<lambda>pattern. test pattern input) technicalPatterns then technical
      else if test digits1 input \<and>
              test (oneOf [''bpm'', ''tempo'', ''volume'', ''pan'', ''by'', ''to'', ''='']) input
        then technical
      else if length (splitStr CHR '' '' input) \<le> 3 then technical
      else creative)"

section \<open>Values and responses (lib/ai/types.ts, as used)\<close>

text \<open>
  JavaScript values as far as the source builds and inspects them: the parameters of an
  action are object literals, and a parsed model response is whatever \<open>JSON.parse\<close>
  returned. An object is the list of its properties in insertion order. A number is
  written as a rational; the source only compares numbers and passes them on.
\<close>

datatype jsval =
    Undefined
  | Null
  | JBool bool
  | Num rat
  | Str string
  | Arr "jsval list"
  | Obj "(string \<times> jsval) list"

record BackboardResponse =
  action :: string
  parameters :: jsval
  confidence :: jsval
  reasoning :: jsval

datatype ModelName = gemini | fallbackModel

text \<open>
  \<open>parseInt\<close> of a run of decimal digits and the decimal rendering of a number in a
  template string. Both are exact for values below \<open>2^53\<close>; for longer digit runs
  JavaScript rounds to a double, which is outside this model.
\<close>

definition digitValue :: "char \<Rightarrow> nat" where
  "digitValue c = charCode c - 48"

definition parseInt :: "string \<Rightarrow> nat" where
  "parseInt ds = foldl (\<lambda>n c. 10 * n + digitValue c) 0 ds"

fun showNat :: "nat \<Rightarrow> string" where
  "showNat n =
     (if n < 10 then [''0123456789'' ! n]
      else showNat (n div 10) @ [''0123456789'' ! (n mod 10)])"

declare showNat.simps [simp del]

section \<open>The first mock (lib/ai/backboard.ts)\<close>

definition instruments :: "string list" where
  "instruments = [''kick'', ''snare'', ''hihat'', ''clap'', ''tom'', ''cymbal'']"

text \<open>\<open>found.charAt(0).toUpperCase() + found.slice(1)\<close>\<close>

definition capitalize :: "string \<Rightarrow> string" where
  "capitalize found = (case found of [] \<Rightarrow> [] | c # t \<Rightarrow> toUpperAsciiChar c # t)"

definition patternName :: "string option \<Rightarrow> string" where
  "patternName found =
     (case found of Some f \<Rightarrow> capitalize f @ '' Pattern'' | None \<Rightarrow> ''New Pattern'')"

definition patternReasoning :: "string option \<Rightarrow> string" where
  "patternReasoning found =
     ''Creating a new pattern'' @ (case found of Some f \<Rightarrow> '' for '' @ f | None \<Rightarrow> [])"

text \<open>\<open>text.match(/\d+/)\<close> and \<open>match ? parseInt(match[0]) : 120\<close>\<close>

definition bpmOf :: "string \<Rightarrow> nat" where
  "bpmOf text = (case match0 digits1 text of Some m \<Rightarrow> parseInt m | None \<Rightarrow> 120)"

definition addNoteParameters :: jsval where
  "addNoteParameters =
     Obj [(''patternId'', Str ''current''), (''pitch'', Num 60), (''startTick'', Num 0),
          (''durationTick'', Num 96), (''velocity'', Num 100)]"

text \<open>
  The version of \<open>mockBackboardResponse\<close> in \<open>lib/ai/backboard.ts\<close>: it returns one
  action. (\<open>console.log\<close> is not modelled; the \<open>model\<close> argument is only logged.)
\<close>

definition mockBackboardResponse_old :: "string \<Rightarrow> ModelName \<Rightarrow> BackboardResponse" where
  \<open>mockBackboardResponse_old text model =
     (let lowerText = toLowerCase text in
      if includesStr lowerText ''pattern'' \<and>
         (includesStr lowerText ''add'' \<or> includesStr lowerText ''create'')
      then
        (let found = find (\<lambda>inst. includesStr lowerText inst) instruments in
         \<lparr>action = ''addPattern'',
          parameters = Obj [(''name'', Str (patternName found)), (''lengthInSteps'', Num 16)],
          confidence = Num (9 / 10),
          reasoning = Str (patternReasoning found)\<rparr>)
      else if includesStr lowerText ''bpm'' \<or> includesStr lowerText ''tempo''
      then
        (let bpm = bpmOf text in
         \<lparr>action = ''setBpm'',
          parameters = Obj [(''bpm'', Num (of_nat bpm))],
          confidence = Num (95 / 100),
          reasoning = Str (''Setting tempo to '' @ showNat bpm @ '' BPM'')\<rparr>)
      else if test (seqs [Bol, oneOf [''play'', ''start'']]) lowerText \<or>
              includesStr lowerText ''play it''
      then
        \<lparr>action = ''play'', parameters = Obj [], confidence = Num 1,
         reasoning = Str ''Starting playback''\<rparr>
      else if test (seqs [Bol, Lit ''stop'']) lowerText
      then
        \<lparr>action = ''stop'', parameters = Obj [], confidence = Num 1,
         reasoning = Str ''Stopping playback''\<rparr>
      else if includesStr lowerText ''note''
      then
        \<lparr>action = ''addNote'', parameters = addNoteParameters, confidence = Num (7 / 10),
         reasoning = Str ''Adding a note to the current pattern''\<rparr>
      else
        \<lparr>action = ''clarificationNeeded'',
         parameters =
           Obj [(''message'',
                 Str (''I understand you want to "'' @ text @
                      ''", but I'm not sure how to help with that. Try commands like "add a kick pattern", "set BPM to 128", or "play".'')),
                (''suggestedOptions'',
                 Arr [Str ''Add a pattern'', Str ''Set BPM'', Str ''Play/Stop'', Str ''Add a note''])],
         confidence = Num (1 / 10),
         reasoning = Str ''Command not recognized''\<rparr>)\<close>

section \<open>The batch mock (the later lib/ai/backboard.ts, quoted in FIX_EXTEND_TRACK.md)\<close>

definition wrapInBatch :: "string \<Rightarrow> jsval \<Rightarrow> rat \<Rightarrow> string \<Rightarrow> BackboardResponse" where
  "wrapInBatch act params conf reason =
     \<lparr>action = ''__batch__'',
      parameters = Obj [(''actions'', Arr [Obj [(''action'', Str act), (''parameters'', params)]])],
      confidence = Num conf,
      reasoning = Str reason\<rparr>"

text \<open>
  The regular expressions of the "suggest" branch. \<open>/track (\d+)/i\<close> ignores case, so
  each letter of \<open>track\<close> matches itself and its capital.
\<close>

definition ignoreCase :: "string \<Rightarrow> regex" where
  "ignoreCase l = seqs (map (\<lambda>d. Class (\<lambda>c. toLowerChar c = d)) l)"

definition trackRegex :: regex where
  "trackRegex = seqs [ignoreCase ''track'', Lit '' '', digits1]"

definition tickRegex :: regex where
  "tickRegex =
     seqs [Lit ''startTick'',
           Plus (Class (\<lambda>c. c = CHR 0x22 \<or> isSpace c \<or> c = CHR '':'')), digits1]"

definition patternRegex :: regex where
  "patternRegex =
     seqs [Lit [CHR 0x22], Plus (Class (\<lambda>c. c \<noteq> CHR 0x22)), Lit (CHR 0x22 # '' (''),
           digits1, Lit '' bars, ID: '',
           Plus (Class (\<lambda>c. isUpperAscii c \<or> isLowerAscii c \<or> isDigit c \<or> c = CHR ''-'')),
           Lit '')'']"

text \<open>
  The capture of the trailing \<open>(\d+)\<close> of \<open>trackRegex\<close> and \<open>tickRegex\<close>: the text
  before the group has no digit, so the group is the matched text from its first digit on.
\<close>

definition lastDigits :: "string \<Rightarrow> string" where
  "lastDigits m = dropWhile (\<lambda>c. \<not> isDigit c) m"

text \<open>
  \<open>while ((match = patternRegex.exec(systemPrompt)) !== null)\<close> with the \<open>g\<close> flag:
  each \<open>exec\<close> searches from the end of the previous match. \<open>execCount\<close> counts the
  rounds. A match of \<open>patternRegex\<close> has at least the two quotes, so the next search
  starts on a shorter rest; the guard on the length is what makes the recursion
  well-founded, and it never fails for this regex.
\<close>

function execCount :: "regex \<Rightarrow> bool \<Rightarrow> string \<Rightarrow> nat" where
  "execCount r b s =
     (case search r b s of
        None \<Rightarrow> 0
      | Some (m, rest) \<Rightarrow> if length rest < length s then Suc (execCount r False rest) else 0)"
  by pat_completeness auto
termination
  by (relation "measure (\<lambda>(r, b, s). length s)") auto

declare execCount.simps [simp del]

definition noteObj :: "nat \<Rightarrow> nat \<Rightarrow> nat \<Rightarrow> nat \<Rightarrow> jsval" where
  "noteObj p s d v =
     Obj [(''pitch'', Num (of_nat p)), (''startTick'', Num (of_nat s)),
          (''durationTick'', Num (of_nat d)), (''velocity'', Num (of_nat v))]"

definition noteVariations :: "jsval list" where
  "noteVariations =
    [Arr [noteObj 36 0 96 100, noteObj 36 192 48 80, noteObj 38 288 48 90, noteObj 41 384 96 100,
          noteObj 36 576 48 85, noteObj 43 672 96 95],
     Arr [noteObj 60 0 48 90, noteObj 62 96 48 85, noteObj 64 192 96 100, noteObj 62 384 48 80,
          noteObj 60 480 48 85, noteObj 57 576 96 95],
     Arr [noteObj 48 0 24 100, noteObj 48 96 24 70, noteObj 48 192 24 100, noteObj 48 288 24 70,
          noteObj 48 384 24 100, noteObj 48 480 24 70, noteObj 48 576 24 100, noteObj 48 672 24 70]]"

text \<open>
  The "suggest" branch. \<open>usedPatternNames\<close> is only logged and is left out. The musical
  note at the end of the reasoning text is outside Latin-1 and is written as its four
  UTF-8 bytes.
\<close>

definition suggestTrackIndex :: "string option \<Rightarrow> int" where
  "suggestTrackIndex systemPrompt =
     (case systemPrompt of
        None \<Rightarrow> 0
      | Some p \<Rightarrow>
          if p = [] then 0
          else (case match0 trackRegex p of
                  None \<Rightarrow> 0
                | Some m \<Rightarrow> int (parseInt (lastDigits m)) - 1))"

definition suggestStartTick :: "string option \<Rightarrow> nat" where
  "suggestStartTick systemPrompt =
     (case systemPrompt of
        None \<Rightarrow> 384
      | Some p \<Rightarrow>
          if p = [] then 384
          else (case match0 tickRegex p of
                  None \<Rightarrow> 384
                | Some m \<Rightarrow> parseInt (lastDigits m)))"

definition availablePatternsLength :: "string option \<Rightarrow> nat" where
  "availablePatternsLength systemPrompt =
     (case systemPrompt of
        None \<Rightarrow> 0
      | Some p \<Rightarrow> if p = [] then 0 else execCount patternRegex True p)"

definition suggestResponse :: "string option \<Rightarrow> BackboardResponse" where
  \<open>suggestResponse systemPrompt =
     (let trackIndex = suggestTrackIndex systemPrompt;
          startTick = suggestStartTick systemPrompt;
          newPatternName = ''AI Generated Beat'';
          durationBars = 2;
          ticksPerBar = 384;
          variationIndex = availablePatternsLength systemPrompt mod length noteVariations;
          generatedNotes = noteVariations ! variationIndex
      in \<lparr>action = ''__batch__'',
          parameters =
            Obj [(''actions'',
              Arr [Obj [(''action'', Str ''addPattern''),
                        (''parameters'',
                         Obj [(''name'', Str newPatternName),
                              (''lengthInSteps'', Num (durationBars * 16))])],
                   Obj [(''action'', Str ''addNoteSequence''),
                        (''parameters'',
                         Obj [(''patternId'', Str ''__NEW_PATTERN__''),
                              (''notes'', generatedNotes)])],
                   Obj [(''action'', Str ''addClip''),
                        (''parameters'',
                         Obj [(''patternId'', Str ''__NEW_PATTERN__''),
                              (''trackIndex'', Num (of_int trackIndex)),
                              (''startTick'', Num (of_nat startTick)),
                              (''durationTick'', Num (durationBars * ticksPerBar))])]])],
          confidence = Num (9 / 10),
          reasoning =
            Str (''Creating "'' @ newPatternName @ ''" with fresh notes just for you! '' @
                 [CHR 0xF0, CHR 0x9F, CHR 0x8E, CHR 0xB5])\<rparr>)\<close>

text \<open>The "make a beat" branch: one \<open>setBpm\<close> and 48 sample placements.\<close>

definition addAudioSample :: "string \<Rightarrow> nat \<Rightarrow> nat \<Rightarrow> jsval" where
  "addAudioSample subcategory trackIndex tick =
     Obj [(''action'', Str ''addAudioSample''),
          (''parameters'',
           Obj [(''category'', Str ''drums''), (''subcategory'', Str subcategory),
                (''trackIndex'', Num (of_nat trackIndex)), (''startTick'', Num (of_nat tick))])]"

definition kickTicks :: "nat list" where
  "kickTicks = [0, 144, 384, 528, 768, 912, 1152, 1296]"

definition snareTicks :: "nat list" where
  "snareTicks = [96, 288, 480, 672, 864, 1056, 1248, 1440]"

text \<open>\<open>for (let tick = 0; tick < 1536; tick += 48)\<close>\<close>

function hihatLoop :: "nat \<Rightarrow> jsval list" where
  "hihatLoop tick =
     (if tick < 1536 then addAudioSample ''hihat'' 2 tick # hihatLoop (tick + 48) else [])"
  by pat_completeness auto
termination
  by (relation "measure (\<lambda>tick. 1536 - tick)") auto

declare hihatLoop.simps [simp del]

definition beatResponse :: BackboardResponse where
  "beatResponse =
     (let actions =
        [Obj [(''action'', Str ''setBpm''), (''parameters'', Obj [(''bpm'', Num 90)])]] @
        map (addAudioSample ''kick'' 0) kickTicks @
        map (addAudioSample ''snare'' 1) snareTicks @
        hihatLoop 0
      in \<lparr>action = ''__batch__'',
          parameters = Obj [(''actions'', Arr actions)],
          confidence = Num (9 / 10),
          reasoning = Str ''Creating a 4-bar boom-bap beat: kicks on 1 and 2-and, snares on 2 and 4, 8th note hi-hats throughout''\<rparr>)"

text \<open>
  The later \<open>mockBackboardResponse\<close>: the two new branches first, then the branches of
  the first mock, each wrapped by \<open>wrapInBatch\<close>.
\<close>

definition mockBackboardResponse ::
  "string \<Rightarrow> ModelName \<Rightarrow> string option \<Rightarrow> BackboardResponse" where
  \<open>mockBackboardResponse text model systemPrompt =
     (let lowerText = toLowerCase text in
      if includesStr lowerText ''suggest'' \<and>
         (includesStr lowerText ''clip'' \<or> includesStr lowerText ''next'')
      then suggestResponse systemPrompt
      else if includesStr lowerText ''beat'' \<and>
              (includesStr lowerText ''make'' \<or> includesStr lowerText ''create'')
      then beatResponse
      else if includesStr lowerText ''pattern'' \<and>
              (includesStr lowerText ''add'' \<or> includesStr lowerText ''create'')
      then
        (let found = find (\<lambda>inst. includesStr lowerText inst) instruments in
         wrapInBatch ''addPattern''
           (Obj [(''name'', Str (patternName found)), (''lengthInSteps'', Num 16)])
           (9 / 10) (patternReasoning found))
      else if includesStr lowerText ''bpm'' \<or> includesStr lowerText ''tempo''
      then
        (let bpm = bpmOf text in
         wrapInBatch ''setBpm'' (Obj [(''bpm'', Num (of_nat bpm))]) (95 / 100)
           (''Setting tempo to '' @ showNat bpm @ '' BPM''))
      else if test (seqs [Bol, oneOf [''play'', ''start'']]) lowerText \<or>
              includesStr lowerText ''play it''
      then wrapInBatch ''play'' (Obj []) 1 ''Starting playback''
      else if test (seqs [Bol, Lit ''stop'']) lowerText
      then wrapInBatch ''stop'' (Obj []) 1 ''Stopping playback''
      else if includesStr lowerText ''note''
      then wrapInBatch ''addNote'' addNoteParameters (7 / 10)
             ''Adding a note to the current pattern''
      else
        wrapInBatch ''clarificationNeeded''
          (Obj [(''message'',
                 Str (''I understand you want to "'' @ text @
                      ''", but I'm not sure how to help with that. Try commands like "make a beat", "add a kick pattern", "set BPM to 128", or "play".'')),
                (''suggestedOptions'',
                 Arr [Str ''Make a beat'', Str ''Add a pattern'', Str ''Set BPM'', Str ''Play/Stop''])])
          (1 / 10) ''Command not recognized'')\<close>

section \<open>The SDK wrapper (the later lib/ai/backboard.ts, quoted in FIX_EXTEND_TRACK.md)\<close>

text \<open>
  A thrown value. \<open>Error m\<close> is an \<open>Error\<close> object with message \<open>m\<close> (also of a
  subclass that the source does not tell apart), \<open>TypeError m\<close> a \<open>TypeError\<close>,
  \<open>NonError\<close> a thrown value that is not an instance of \<open>Error\<close>.
\<close>

datatype thrown = Error string | TypeError string | NonError

fun errorMessage :: "thrown \<Rightarrow> string option" where
  "errorMessage (Error m) = Some m"
| "errorMessage (TypeError m) = Some m"
| "errorMessage NonError = None"

definition MAX_RETRIES :: nat where "MAX_RETRIES = 2"
definition RETRY_DELAY_MS :: nat where "RETRY_DELAY_MS = 1000"
definition USE_MOCK :: bool where "USE_MOCK = False"

fun joinLines :: "string list \<Rightarrow> string" where
  "joinLines [] = []"
| "joinLines [l] = l"
| "joinLines (l # ls) = l @ CHR 0x0A # joinLines ls"

definition DEFAULT_SYSTEM_PROMPT :: string where
  \<open>DEFAULT_SYSTEM_PROMPT = joinLines
     [''You are a DAW (Digital Audio Workstation) assistant for Pulse Studio. Convert natural language commands into structured JSON actions.'',
      '''',
      ''IMPORTANT: Always respond with ONLY valid JSON, no markdown, no explanation.'',
      '''',
      ''TIMING REFERENCE (PPQ = 96 ticks per beat):'',
      ''- 1 bar = 384 ticks, 4 bars = 1536 ticks'',
      ''- Quarter note = 96 ticks, 8th = 48, 16th = 24'',
      ''- Beat 1 = 0, Beat 2 = 96, Beat 3 = 192, Beat 4 = 288'',
      '''',
      ''Response format (always use actions array):'',
      ''{{'',
      ''  "actions": ['',
      ''    {{ "action": "commandName", "parameters": {{ ... }} }}'',
      ''  ],'',
      ''  "confidence": 0.0-1.0,'',
      ''  "reasoning": "brief explanation"'',
      ''}}'',
      '''',
      ''Available actions:'',
      ''- addPattern: Create a new pattern. Parameters: {{{{ name?: string, lengthInSteps?: number }}}}'',
      ''- addNote: Add a note. Parameters: {{{{ patternId: string, pitch: number, startTick: number, durationTick: number, velocity?: number }}}}'',
      ''- setBpm: Set tempo. Parameters: {{{{ bpm: number }}}}'',
      ''- play, stop, pause: Control playback (no parameters)'',
      ''- addChannel: Add instrument. Parameters: {{{{ name?: string, type: "synth"|"sampler", preset?: string }}}}'',
      ''- addClip: Add clip to playlist. Parameters: {{{{ patternId: string, trackIndex: number, startTick: number }}}}'',
      ''- setTrackEffect: Set mixer effect. Parameters: {{{{ trackId: string, effectKey: string, value: number }}}}'',
      ''  Valid effectKey: "volume" (0-1), "pan" (-1 to 1), "eqLow", "eqMid", "eqHigh" (-12 to 12), "compThreshold" (-60 to 0), "compRatio" (1-20), "reverbWet" (0-1 for reverb)'',
      ''- addAudioSample: Add sample. Parameters: {{{{ category: string, subcategory: string, trackIndex?: number, startTick?: number }}}}'',
      ''- clarificationNeeded: When unclear. Parameters: {{{{ message: string, suggestedOptions?: string[] }}}}'',
      '''',
      ''BEAT CREATION: For "make a beat" requests, create full 4-bar patterns with 30-50+ sample placements.'',
      ''Example tick positions for a 4-bar boom-bap:'',
      ''- Kicks: 0, 144, 384, 528, 768, 912, 1152, 1296'',
      ''- Snares: 96, 288, 480, 672, 864, 1056, 1248, 1440  '',
      ''- Hi-hats: 0, 48, 96, 144... every 48 ticks for 8th notes'',
      '''',
      ''For unclear commands use action "clarificationNeeded" with a message explaining what you need.'']\<close>

text \<open>
  \<open>hashContext\<close>: \<open>hash = (hash << 5) - hash + char; hash = hash & hash\<close> keeps a
  32-bit two's complement value, so the loop is arithmetic on \<open>32 word\<close>;
  \<open>toString(16)\<close> writes the signed value in lower-case hexadecimal.
\<close>

fun showHex :: "nat \<Rightarrow> string" where
  "showHex n =
     (if n < 16 then [''0123456789abcdef'' ! n]
      else showHex (n div 16) @ [''0123456789abcdef'' ! (n mod 16)])"

declare showHex.simps [simp del]

definition toString16 :: "int \<Rightarrow> string" where
  "toString16 i = (if i < 0 then CHR ''-'' # showHex (nat (- i)) else showHex (nat i))"

definition hashStep :: "32 word \<Rightarrow> char \<Rightarrow> 32 word" where
  "hashStep hash c = push_bit 5 hash - hash + of_nat (charCode c)"

definition hashContext :: "string \<Rightarrow> string" where
  "hashContext ctx = toString16 (sint (foldl hashStep 0 ctx))"

text \<open>
  The module state: the client singleton (present or not) and the three cache variables,
  each \<open>null\<close> (\<open>None\<close>) or a string. \<open>world\<close> is the state of the Backboard
  service, which only the SDK reads and writes. \<open>trace\<close> records what the retry loop
  does besides calling the SDK: the \<open>sleep\<close> calls and the \<open>console.error\<close> line
  of each failed attempt, with the attempt number it prints.
\<close>

datatype event = Slept nat | AttemptFailed nat

record 'w Backend =
  client :: bool
  cachedAssistantId :: "string option"
  cachedThreadId :: "string option"
  cachedContextHash :: "string option"
  world :: 'w
  trace :: "event list"

record SdkResponse =
  status :: string
  content :: "string option"

text \<open>
  What the module does not define itself: the environment variable, \<open>JSON.parse\<close>
  (\<open>None\<close> when it throws a \<open>SyntaxError\<close>) and the three methods of the
  \<open>backboard-sdk\<close> client. A method either throws or returns, and may change the
  service's state.
\<close>

record 'w Platform =
  BACKBOARD_API_KEY :: "string option"
  jsonParse :: "string \<Rightarrow> jsval option"
  createAssistant :: "string \<Rightarrow> string \<Rightarrow> 'w \<Rightarrow> (thrown + string) \<times> 'w"
  createThread :: "string \<Rightarrow> 'w \<Rightarrow> (thrown + string) \<times> 'w"
  addMessage ::
    "string \<Rightarrow> string \<Rightarrow> ModelProvider \<Rightarrow> string \<Rightarrow> 'w \<Rightarrow> (thrown + SdkResponse) \<times> 'w"

text \<open>The truth value of a \<open>string | null\<close> and of any value.\<close>

definition truthyStr :: "string option \<Rightarrow> bool" where
  "truthyStr x = (case x of None \<Rightarrow> False | Some s \<Rightarrow> s \<noteq> [])"

fun truthy :: "jsval \<Rightarrow> bool" where
  "truthy Undefined = False"
| "truthy Null = False"
| "truthy (JBool b) = b"
| "truthy (Num n) = (n \<noteq> 0)"
| "truthy (Str s) = (s \<noteq> [])"
| "truthy (Arr xs) = True"
| "truthy (Obj ps) = True"

definition getClient :: "'w Platform \<Rightarrow> 'w Backend \<Rightarrow> (thrown + unit) \<times> 'w Backend" where
  "getClient P st =
     (if \<not> client st then
        (if \<not> truthyStr (BACKBOARD_API_KEY P)
         then (Inl (Error ''Backboard API key not configured''), st)
         else (Inr (), st\<lparr>client := True\<rparr>))
      else (Inr (), st))"

definition getAssistant ::
  "'w Platform \<Rightarrow> string \<Rightarrow> 'w Backend \<Rightarrow> (thrown + string) \<times> 'w Backend" where
  "getAssistant P systemPrompt st =
     (let contextHash = hashContext systemPrompt;
          st1 = (if truthyStr (cachedAssistantId st) \<and> cachedContextHash st \<noteq> Some contextHash
                 then st\<lparr>cachedAssistantId := None, cachedThreadId := None\<rparr>
                 else st)
      in if truthyStr (cachedAssistantId st1) then (Inr (the (cachedAssistantId st1)), st1)
         else (case getClient P st1 of
                 (Inl e, st2) \<Rightarrow> (Inl e, st2)
               | (Inr u, st2) \<Rightarrow>
                   (case createAssistant P ''Pulse Studio Music Copilot'' systemPrompt (world st2) of
                      (Inl e, w) \<Rightarrow> (Inl e, st2\<lparr>world := w\<rparr>)
                    | (Inr assistantId, w) \<Rightarrow>
                        (Inr assistantId,
                         st2\<lparr>world := w, cachedAssistantId := Some assistantId,
                             cachedContextHash := Some contextHash\<rparr>))))"

definition getThread ::
  "'w Platform \<Rightarrow> string \<Rightarrow> 'w Backend \<Rightarrow> (thrown + string) \<times> 'w Backend" where
  "getThread P assistantId st =
     (if truthyStr (cachedThreadId st) then (Inr (the (cachedThreadId st)), st)
      else (case getClient P st of
              (Inl e, st1) \<Rightarrow> (Inl e, st1)
            | (Inr u, st1) \<Rightarrow>
                (case createThread P assistantId (world st1) of
                   (Inl e, w) \<Rightarrow> (Inl e, st1\<lparr>world := w\<rparr>)
                 | (Inr threadId, w) \<Rightarrow>
                     (Inr threadId, st1\<lparr>world := w, cachedThreadId := Some threadId\<rparr>))))"

text \<open>
  \<open>content.replace(/```json\n?/g, '').replace(/```\n?/g, '').trim()\<close>.
  \<open>removeAll r\<close> is \<open>replace\<close> with a global regex and the empty replacement: scan
  from the left, drop each match, go on behind it (after an empty match, behind the next
  character, which stays).
\<close>

function removeAll :: "regex \<Rightarrow> bool \<Rightarrow> string \<Rightarrow> string" where
  "removeAll r b [] = []"
| "removeAll r b (c # s) =
     (case rem r (b, c # s) of
        [] \<Rightarrow> c # removeAll r False s
      | q # qs \<Rightarrow>
          if length (snd q) \<le> length s then removeAll r False (snd q)
          else c # removeAll r False s)"
  by pat_completeness auto
termination
  by (relation "measure (\<lambda>(r, b, s). length s)") auto

definition trim :: "string \<Rightarrow> string" where
  "trim s = rev (dropWhile isSpace (rev (dropWhile isSpace s)))"

definition stripFences :: "string \<Rightarrow> string" where
  "stripFences raw =
     trim (removeAll (seqs [Lit ''```'', Opt (Lit [CHR 0x0A])]) True
            (removeAll (seqs [Lit ''```json'', Opt (Lit [CHR 0x0A])]) True raw))"

text \<open>
  Reading a property: \<open>undefined\<close> for a missing property and for a value that is not an
  object (none of the names read here is a property of a string, number, boolean or
  array). On \<open>null\<close> the read throws a \<open>TypeError\<close>; the callers test for it.
\<close>

fun getProp :: "jsval \<Rightarrow> string \<Rightarrow> jsval" where
  "getProp (Obj ps) k = (case map_of ps k of Some v \<Rightarrow> v | None \<Rightarrow> Undefined)"
| "getProp v k = Undefined"

fun isArray :: "jsval \<Rightarrow> bool" where
  "isArray (Arr xs) = True"
| "isArray v = False"

definition unknownResponse :: "string \<Rightarrow> string \<Rightarrow> BackboardResponse" where
  "unknownResponse text rawResponse =
     \<lparr>action = ''__batch__'',
      parameters =
        Obj [(''actions'',
              Arr [Obj [(''action'', Str ''unknown''),
                        (''parameters'',
                         Obj [(''originalText'', Str text),
                              (''reason'', Str ''Failed to parse AI response''),
                              (''rawResponse'', Str rawResponse)])]])],
      confidence = Undefined,
      reasoning = Undefined\<rparr>"

text \<open>
  The inner \<open>try\<close>/\<open>catch\<close> of \<open>sendToModel\<close>. Its \<open>catch\<close> returns, so the block
  never throws: a \<open>SyntaxError\<close> of \<open>JSON.parse\<close> and the \<open>TypeError\<close> of reading
  \<open>parsed.actions\<close> when the text was the JSON \<open>null\<close> both give the \<open>unknown\<close>
  response.
\<close>

definition parseContent :: "'w Platform \<Rightarrow> string \<Rightarrow> string \<Rightarrow> BackboardResponse" where
  "parseContent P text content0 =
     (let stripped = stripFences content0 in
      case jsonParse P stripped of
        None \<Rightarrow> unknownResponse text stripped
      | Some parsed \<Rightarrow>
          if parsed = Null then unknownResponse text stripped
          else if truthy (getProp parsed ''actions'') \<and> isArray (getProp parsed ''actions'')
          then \<lparr>action = ''__batch__'',
                parameters = Obj [(''actions'', getProp parsed ''actions''),
                                  (''sampleChoices'', getProp parsed ''sampleChoices'')],
                confidence = getProp parsed ''confidence'',
                reasoning = getProp parsed ''reasoning''\<rparr>
          else \<lparr>action = ''__batch__'',
                parameters =
                  Obj [(''actions'',
                        Arr [Obj [(''action'',
                                   if truthy (getProp parsed ''action'')
                                   then getProp parsed ''action'' else Str ''unknown''),
                                  (''parameters'',
                                   if truthy (getProp parsed ''parameters'')
                                   then getProp parsed ''parameters'' else Obj [])]])],
                confidence = getProp parsed ''confidence'',
                reasoning = getProp parsed ''reasoning''\<rparr>)"

text \<open>\<open>systemPrompt || DEFAULT_SYSTEM_PROMPT\<close>\<close>

definition effectiveSystemPrompt :: "string option \<Rightarrow> string" where
  "effectiveSystemPrompt systemPrompt =
     (if truthyStr systemPrompt then the systemPrompt else DEFAULT_SYSTEM_PROMPT)"

text \<open>
  The body of the \<open>try\<close> in the retry loop: one attempt. \<open>Inl\<close> is what the outer
  \<open>catch\<close> receives.
\<close>

definition attemptOnce ::
  "'w Platform \<Rightarrow> string \<Rightarrow> string \<Rightarrow> 'w Backend \<Rightarrow> (thrown + BackboardResponse) \<times> 'w Backend"
  where
  "attemptOnce P text effectivePrompt st =
     (case getAssistant P effectivePrompt st of
        (Inl e, st1) \<Rightarrow> (Inl e, st1)
      | (Inr assistantId, st1) \<Rightarrow>
     (case getThread P assistantId st1 of
        (Inl e, st2) \<Rightarrow> (Inl e, st2)
      | (Inr threadId, st2) \<Rightarrow>
     (let taskType = classifyTask text;
          modelConfig = getModelForTask taskType
      in case getClient P st2 of
        (Inl e, st3) \<Rightarrow> (Inl e, st3)
      | (Inr u, st3) \<Rightarrow>
     (case addMessage P threadId text (provider modelConfig) (modelName modelConfig) (world st3) of
        (Inl e, w) \<Rightarrow> (Inl e, st3\<lparr>world := w\<rparr>)
      | (Inr response, w) \<Rightarrow>
          if status response = ''FAILED''
          then (Inl (Error (''Backboard response failed: '' @
                       (case content response of None \<Rightarrow> ''undefined'' | Some c \<Rightarrow> c))),
                st3\<lparr>world := w\<rparr>)
          else (Inr (parseContent P text (case content response of None \<Rightarrow> [] | Some c \<Rightarrow> c)),
                st3\<lparr>world := w\<rparr>)))))"

text \<open>
  \<open>for (let attempt = 0; attempt <= MAX_RETRIES; attempt++)\<close> with its \<open>catch\<close>, and
  the fall-back to the mock behind the loop.
\<close>

definition logFailure :: "nat \<Rightarrow> 'w Backend \<Rightarrow> 'w Backend" where
  "logFailure attempt st = st\<lparr>trace := trace st @ [AttemptFailed (attempt + 1)]\<rparr>"

definition sleep :: "nat \<Rightarrow> 'w Backend \<Rightarrow> 'w Backend" where
  "sleep ms st = st\<lparr>trace := trace st @ [Slept ms]\<rparr>"

definition noRetry :: "thrown \<Rightarrow> thrown option" where
  "noRetry e =
     (case errorMessage e of
        None \<Rightarrow> None
      | Some m \<Rightarrow>
          if includesStr m ''401'' \<or> includesStr m ''403''
          then Some (Error ''Invalid Backboard API key'')
          else if includesStr m ''429''
          then Some (Error ''Rate limit exceeded. Please try again later.'')
          else None)"

function sendLoop ::
  "'w Platform \<Rightarrow> string \<Rightarrow> ModelName \<Rightarrow> string \<Rightarrow> nat \<Rightarrow> 'w Backend
     \<Rightarrow> (thrown + BackboardResponse) \<times> 'w Backend" where
  "sendLoop P text model effectivePrompt attempt st =
     (if attempt \<le> MAX_RETRIES then
        (case attemptOnce P text effectivePrompt st of
           (Inr response, st1) \<Rightarrow> (Inr response, st1)
         | (Inl e, st1) \<Rightarrow>
             (case noRetry e of
                Some e' \<Rightarrow> (Inl e', logFailure attempt st1)
              | None \<Rightarrow>
                  sendLoop P text model effectivePrompt (attempt + 1)
                    (if attempt < MAX_RETRIES
                     then sleep (RETRY_DELAY_MS * (attempt + 1)) (logFailure attempt st1)
                     else logFailure attempt st1)))
      else (Inr (mockBackboardResponse text model (Some effectivePrompt)), st))"
  by pat_completeness auto
termination
  by (relation "measure (\<lambda>(P, text, model, prompt, attempt, st). Suc MAX_RETRIES - attempt)") auto

declare sendLoop.simps [simp del]

definition sendToModel ::
  "'w Platform \<Rightarrow> string \<Rightarrow> ModelName \<Rightarrow> string option \<Rightarrow> 'w Backend
     \<Rightarrow> (thrown + BackboardResponse) \<times> 'w Backend" where
  "sendToModel P text model systemPrompt st =
     (let effective = effectiveSystemPrompt systemPrompt in
      if USE_MOCK
      then (Inr (mockBackboardResponse text model (Some effective)), sleep 300 st)
      else if \<not> truthyStr (BACKBOARD_API_KEY P)
      then (Inl (Error ''Backboard API key not configured''), st)
      else sendLoop P text model effective 0 st)"

text \<open>
  The cache invariant. \<open>cacheInv\<close>: a thread id is cached only together with an
  assistant id. \<open>cacheOk p\<close>: moreover the hash stored with that assistant is the hash
  of the system prompt \<open>p\<close> of the request at hand.
\<close>

definition cacheInv :: "'w Backend \<Rightarrow> bool" where
  "cacheInv st = (truthyStr (cachedThreadId st) \<longrightarrow> truthyStr (cachedAssistantId st))"

definition cacheOk :: "string \<Rightarrow> 'w Backend \<Rightarrow> bool" where
  "cacheOk p st =
     (truthyStr (cachedThreadId st) \<longrightarrow>
        truthyStr (cachedAssistantId st) \<and> cachedContextHash st = Some (hashContext p))"

text \<open>The module state when the module has just been loaded.\<close>

definition initialBackend :: "'w \<Rightarrow> 'w Backend" where
  "initialBackend w =
     \<lparr>client = False, cachedAssistantId = None, cachedThreadId = None,
      cachedContextHash = None, world = w, trace = []\<rparr>"

text \<open>
  A concrete platform for the examples: the key is set, the service hands out the ids
  \<open>asst_1\<close> and \<open>thread_1\<close>, and every \<open>addMessage\<close> call has the given outcome; the
  service state counts the \<open>addMessage\<close> calls. \<open>exampleJsonParse\<close> is \<open>JSON.parse\<close> on
  the two texts \<open>null\<close> and \<open>{}\<close>; the other texts used in the examples are not JSON.
\<close>

definition exampleJsonParse :: "string \<Rightarrow> jsval option" where
  "exampleJsonParse s =
     (if s = ''null'' then Some Null else if s = ''{}'' then Some (Obj []) else None)"

definition examplePlatform :: "(thrown + SdkResponse) \<Rightarrow> nat Platform" where
  "examplePlatform outcome =
     \<lparr>BACKBOARD_API_KEY = Some ''key'',
      jsonParse = exampleJsonParse,
      createAssistant = (\<lambda>name description w. (Inr ''asst_1'', w)),
      createThread = (\<lambda>assistantId w. (Inr ''thread_1'', w)),
      addMessage = (\<lambda>threadId message llm_provider model_name w. (outcome, Suc w))\<rparr>"

text \<open>
  Where the two cache functions wait. Both are \<open>async\<close>: each runs without interruption
  up to its \<open>await\<close> of the SDK call and, once the call has settled, from there to its
  end; in between, other requests of the same process run on the same module variables.
  \<open>getAssistant_start\<close> and \<open>getThread_start\<close> are the parts before the \<open>await\<close>:
  the function is \<open>Finished\<close> when it returns or throws without calling the SDK, and
  \<open>Suspended\<close> when it has issued the call, with the outcome that the call is going to
  deliver (the service changes its state when it is called).
  \<open>getAssistant_resume\<close> and \<open>getThread_resume\<close> are the parts behind the \<open>await\<close>:
  a rejected call throws there, a fulfilled one is written to the cache.
\<close>

datatype segment = Finished "thrown + string" | Suspended "thrown + string"

definition getAssistant_start ::
  "'w Platform \<Rightarrow> string \<Rightarrow> 'w Backend \<Rightarrow> segment \<times> 'w Backend" where
  "getAssistant_start P systemPrompt st =
     (let contextHash = hashContext systemPrompt;
          st1 = (if truthyStr (cachedAssistantId st) \<and> cachedContextHash st \<noteq> Some contextHash
                 then st\<lparr>cachedAssistantId := None, cachedThreadId := None\<rparr>
                 else st)
      in if truthyStr (cachedAssistantId st1) then (Finished (Inr (the (cachedAssistantId st1))), st1)
         else (case getClient P st1 of
                 (Inl e, st2) \<Rightarrow> (Finished (Inl e), st2)
               | (Inr u, st2) \<Rightarrow>
                   (case createAssistant P ''Pulse Studio Music Copilot'' systemPrompt (world st2) of
                      (outcome, w) \<Rightarrow> (Suspended outcome, st2\<lparr>world := w\<rparr>))))"

definition getAssistant_resume ::
  "string \<Rightarrow> thrown + string \<Rightarrow> 'w Backend \<Rightarrow> (thrown + string) \<times> 'w Backend" where
  "getAssistant_resume systemPrompt outcome st =
     (case outcome of
        Inl e \<Rightarrow> (Inl e, st)
      | Inr assistantId \<Rightarrow>
          (Inr assistantId,
           st\<lparr>cachedAssistantId := Some assistantId,
              cachedContextHash := Some (hashContext systemPrompt)\<rparr>))"

definition getThread_start ::
  "'w Platform \<Rightarrow> string \<Rightarrow> 'w Backend \<Rightarrow> segment \<times> 'w Backend" where
  "getThread_start P assistantId st =
     (if truthyStr (cachedThreadId st) then (Finished (Inr (the (cachedThreadId st))), st)
      else (case getClient P st of
              (Inl e, st1) \<Rightarrow> (Finished (Inl e), st1)
            | (Inr u, st1) \<Rightarrow>
                (case createThread P assistantId (world st1) of
                   (outcome, w) \<Rightarrow> (Suspended outcome, st1\<lparr>world := w\<rparr>))))"

definition getThread_resume ::
  "thrown + string \<Rightarrow> 'w Backend \<Rightarrow> (thrown + string) \<times> 'w Backend" where
  "getThread_resume outcome st =
     (case outcome of
        Inl e \<Rightarrow> (Inl e, st)
      | Inr threadId \<Rightarrow> (Inr threadId, st\<lparr>cachedThreadId := Some threadId\<rparr>))"

text \<open>
  Two more platforms for the examples. \<open>numberingPlatform\<close> numbers the assistants it
  creates (its state is their count) and names a thread after its assistant; every
  message is answered with the JSON \<open>{}\<close>. \<open>emptyIdPlatform\<close> is the same service,
  except that the assistant it creates has the empty string as its id.
\<close>

definition numberingPlatform :: "nat Platform" where
  "numberingPlatform =
     \<lparr>BACKBOARD_API_KEY = Some ''key'',
      jsonParse = exampleJsonParse,
      createAssistant = (\<lambda>name description w. (Inr (''asst_'' @ showNat (Suc w)), Suc w)),
      createThread = (\<lambda>assistantId w. (Inr (''thread_of_'' @ assistantId), w)),
      addMessage = (\<lambda>threadId message llm_provider model_name w.
                      (Inr \<lparr>status = ''COMPLETED'', content = Some ''{}''\<rparr>, w))\<rparr>"

definition emptyIdPlatform :: "nat Platform" where
  "emptyIdPlatform = numberingPlatform\<lparr>createAssistant := (\<lambda>name description w. (Inr [], Suc w))\<rparr>"

section \<open>The first \<open>sendToModel\<close> (lib/ai/backboard.ts)\<close>

text \<open>
  In the first version of the file the SDK is not used yet: \<open>USE_MOCK\<close> is \<open>true\<close>,
  \<open>getAssistant\<close> and \<open>getThread\<close> hand out placeholder ids, and the body of the
  \<open>try\<close> returns the mock's response. The retry loop and its \<open>catch\<close> are the same text
  as in the later version; behind the loop this version throws instead of falling back.
\<close>

definition USE_MOCK_old :: bool where "USE_MOCK_old = True"

record Backend_old =
  cachedAssistantId_old :: "string option"
  cachedThreadId_old :: "string option"
  trace_old :: "event list"

definition getAssistant_old :: "Backend_old \<Rightarrow> string \<times> Backend_old" where
  "getAssistant_old st =
     (if truthyStr (cachedAssistantId_old st) then (the (cachedAssistantId_old st), st)
      else (''mock-assistant-id'', st\<lparr>cachedAssistantId_old := Some ''mock-assistant-id''\<rparr>))"

definition getThread_old :: "string \<Rightarrow> Backend_old \<Rightarrow> string \<times> Backend_old" where
  "getThread_old assistantId st =
     (if truthyStr (cachedThreadId_old st) then (the (cachedThreadId_old st), st)
      else (''mock-thread-id'', st\<lparr>cachedThreadId_old := Some ''mock-thread-id''\<rparr>))"

definition attemptOnce_old ::
  "string \<Rightarrow> ModelName \<Rightarrow> Backend_old \<Rightarrow> (thrown + BackboardResponse) \<times> Backend_old" where
  "attemptOnce_old text model st =
     (case getAssistant_old st of
        (assistantId, st1) \<Rightarrow>
          (case getThread_old assistantId st1 of
             (threadId, st2) \<Rightarrow> (Inr (mockBackboardResponse_old text model), st2)))"

function sendLoop_old ::
  "string \<Rightarrow> ModelName \<Rightarrow> nat \<Rightarrow> thrown option \<Rightarrow> Backend_old
     \<Rightarrow> (thrown + BackboardResponse) \<times> Backend_old" where
  "sendLoop_old text model attempt lastError st =
     (if attempt \<le> MAX_RETRIES then
        (case attemptOnce_old text model st of
           (Inr response, st1) \<Rightarrow> (Inr response, st1)
         | (Inl e, st1) \<Rightarrow>
             (case noRetry e of
                Some e' \<Rightarrow> (Inl e', st1\<lparr>trace_old := trace_old st1 @ [AttemptFailed (attempt + 1)]\<rparr>)
              | None \<Rightarrow>
                  sendLoop_old text model (attempt + 1) (Some e)
                    (st1\<lparr>trace_old := trace_old st1 @ [AttemptFailed (attempt + 1)] @
                         (if attempt < MAX_RETRIES
                          then [Slept (RETRY_DELAY_MS * (attempt + 1))] else [])\<rparr>)))
      else
        (Inl (Error (''Failed to connect to Backboard after '' @ showNat (MAX_RETRIES + 1) @
                     '' attempts: '' @
                     (case lastError of
                        None \<Rightarrow> ''undefined''
                      | Some e \<Rightarrow> (case errorMessage e of None \<Rightarrow> ''undefined'' | Some m \<Rightarrow> m)))),
         st))"
  by pat_completeness auto
termination
  by (relation "measure (\<lambda>(text, model, attempt, lastError, st). Suc MAX_RETRIES - attempt)") auto

declare sendLoop_old.simps [simp del]

definition sendToModel_old ::
  "string option \<Rightarrow> string \<Rightarrow> ModelName \<Rightarrow> Backend_old
     \<Rightarrow> (thrown + BackboardResponse) \<times> Backend_old" where
  "sendToModel_old apiKey text model st =
     (if USE_MOCK_old
      then (Inr (mockBackboardResponse_old text model), st\<lparr>trace_old := trace_old st @ [Slept 300]\<rparr>)
      else if \<not> truthyStr apiKey
      then (Inl (Error ''Backboard API key not configured''), st)
      else sendLoop_old text model 0 None st)"

section \<open>The chat panel (components/panels/ChatPanel.tsx)\<close>

text \<open>
  \<open>handleSend\<close> works through the chat store, the network and the executors, none of
  which is defined in the panel. The model lists what \<open>handleSend\<close> does to them, in
  order: the calls of the store's \<open>chat.addMessage\<close>, \<open>chat.setPending\<close> and
  \<open>chat.setLastCommand\<close>, the component's own \<open>setInputText\<close> and
  \<open>setTextareaRows\<close>, the \<open>fetch\<close> request, and the error toast.
\<close>

datatype Sender = user | agent

datatype MessageStatus = sending | sent | error

record RequestBody =
  body_text :: string
  body_model :: ModelName
  body_conversationHistory :: "jsval list"
  body_systemPrompt :: string

record Request =
  url :: string
  httpMethod :: string
  contentType :: string
  body :: RequestBody

datatype effect =
    SetInputText string
  | SetTextareaRows nat
  | AddMessage Sender jsval MessageStatus
  | SetPending bool
  | SetLastCommand string
  | Fetch Request
  | ErrorToast string

text \<open>What the panel reads when \<open>handleSend\<close> is called.\<close>

record PanelState =
  inputText :: string
  isPending :: bool
  selectedModel :: ModelName
  messages :: "jsval list"

record HttpResponse =
  ok :: bool
  httpStatus :: nat
  json :: "thrown + jsval"

text \<open>
  \<open>BackboardBatchResponse\<close>, and the fields that \<open>handleSend\<close> reads of the results
  of \<open>executeBatch\<close> and \<open>executeCommand\<close>; \<open>cmd_commandId\<close> is
  \<open>result.data?.commandId\<close>. A count is a natural number.
\<close>

record BatchData =
  batch_actions :: jsval
  batch_sampleChoices :: jsval
  batch_confidence :: jsval
  batch_reasoning :: jsval

record BatchResult =
  batch_success :: bool
  batch_message :: string
  successCount :: nat
  undoGroupId :: "string option"

record CommandResult =
  cmd_success :: bool
  cmd_message :: string
  cmd_commandId :: "string option"

text \<open>
  The surroundings of \<open>handleSend\<close>: the project in the store at the time of the call
  (\<open>useStore.getState().project\<close>), the imported functions, and two services of the
  language: the conversion of a value to a string inside \<open>new Error(...)\<close>, and the
  message of the \<open>TypeError\<close> for reading a property of \<open>null\<close>. The two context
  builders are functions of their arguments; each of the others throws or returns.
\<close>

record ('proj, 'lib, 'ctx, 'cmd) ChatEnv =
  project :: 'proj
  loadSampleLibrary :: "thrown + 'lib"
  buildDAWContext :: "'proj \<Rightarrow> 'lib \<Rightarrow> 'ctx"
  generateSystemPrompt :: "'ctx \<Rightarrow> string"
  fetch :: "Request \<Rightarrow> thrown + HttpResponse"
  executeBatch :: "BatchData \<Rightarrow> 'lib \<Rightarrow> thrown + BatchResult"
  parseAIResponse :: "jsval \<Rightarrow> thrown + 'cmd"
  executeCommand :: "'cmd \<Rightarrow> thrown + CommandResult"
  toStringJs :: "jsval \<Rightarrow> string"
  nullReadMessage :: "string \<Rightarrow> string"

text \<open>\<open>x?.k\<close>\<close>

definition optChain :: "jsval \<Rightarrow> string \<Rightarrow> jsval" where
  "optChain x k = (if x = Null \<or> x = Undefined then Undefined else getProp x k)"

text \<open>\<open>messages.slice(-5)\<close>\<close>

definition lastFive :: "'a list \<Rightarrow> 'a list" where
  "lastFive xs = drop (length xs - 5) xs"

definition buildRequest ::
  "('proj, 'lib, 'ctx, 'cmd) ChatEnv \<Rightarrow> PanelState \<Rightarrow> 'lib \<Rightarrow> string \<Rightarrow> Request" where
  "buildRequest E s sampleLibrary userMessage =
     (let dawContext = buildDAWContext E (project E) sampleLibrary;
          systemPrompt = generateSystemPrompt E dawContext
      in \<lparr>url = ''/api/chat'', httpMethod = ''POST'', contentType = ''application/json'',
          body = \<lparr>body_text = userMessage, body_model = selectedModel s,
                   body_conversationHistory = lastFive (messages s),
                   body_systemPrompt = systemPrompt\<rparr>\<rparr>)"

definition batchDataOf :: "jsval \<Rightarrow> BatchData" where
  "batchDataOf backboardResponse =
     \<lparr>batch_actions = getProp (getProp backboardResponse ''parameters'') ''actions'',
      batch_sampleChoices = getProp (getProp backboardResponse ''parameters'') ''sampleChoices'',
      batch_confidence = getProp backboardResponse ''confidence'',
      batch_reasoning = getProp backboardResponse ''reasoning''\<rparr>"

text \<open>
  The body of the inner \<open>try\<close>: the batch branch and the legacy single-command branch.
  The result is the effects so far and, if the block threw, the thrown value.
\<close>

definition runCommand ::
  "('proj, 'lib, 'ctx, 'cmd) ChatEnv \<Rightarrow> 'lib \<Rightarrow> jsval \<Rightarrow> effect list \<times> thrown option" where
  "runCommand E sampleLibrary backboardResponse =
     (if getProp backboardResponse ''action'' = Str ''__batch__'' \<and>
         truthy (optChain (getProp backboardResponse ''parameters'') ''actions'')
      then
        (case executeBatch E (batchDataOf backboardResponse) sampleLibrary of
           Inl e \<Rightarrow> ([], Some e)
         | Inr batchResult \<Rightarrow>
             if batch_success batchResult
             then ([AddMessage agent (Str (batch_message batchResult)) sent] @
                   (if truthyStr (undoGroupId batchResult)
                    then [SetLastCommand (the (undoGroupId batchResult))] else []),
                   None)
             else ([AddMessage agent (Str (batch_message batchResult))
                      (if successCount batchResult > 0 then sent else error)],
                   None))
      else
        (case parseAIResponse E backboardResponse of
           Inl e \<Rightarrow> ([], Some e)
         | Inr command \<Rightarrow>
             (case executeCommand E command of
                Inl e \<Rightarrow> ([], Some e)
              | Inr result \<Rightarrow>
                  if cmd_success result
                  then ([AddMessage agent (Str (cmd_message result)) sent] @
                        (if truthyStr (cmd_commandId result)
                         then [SetLastCommand (the (cmd_commandId result))] else []),
                        None)
                  else ([AddMessage agent (Str (''Error: '' @ cmd_message result)) error], None))))"

text \<open>What follows a successful API response: the inner \<open>try\<close> with its \<open>catch\<close>.\<close>

definition handleCommandResult ::
  "('proj, 'lib, 'ctx, 'cmd) ChatEnv \<Rightarrow> 'lib \<Rightarrow> jsval \<Rightarrow> effect list" where
  "handleCommandResult E sampleLibrary apiResponse =
     (let commandResult = optChain (getProp apiResponse ''data'') ''commandResult'';
          message = optChain (getProp apiResponse ''data'') ''message''
      in if truthy commandResult then
           (case runCommand E sampleLibrary commandResult of
              (effects, None) \<Rightarrow> effects
            | (effects, Some parseError) \<Rightarrow>
                effects @
                [AddMessage agent
                   (Str (''Failed to execute command: '' @
                         (case errorMessage parseError of Some m \<Rightarrow> m | None \<Rightarrow> ''Unknown error'')))
                   error])
         else if truthy message then [AddMessage agent message sent]
         else [AddMessage agent (Str ''Received response but no actionable command.'') sent])"

text \<open>The body of the outer \<open>try\<close>.\<close>

definition callApi ::
  "('proj, 'lib, 'ctx, 'cmd) ChatEnv \<Rightarrow> PanelState \<Rightarrow> string \<Rightarrow> effect list \<times> thrown option"
  where
  "callApi E s userMessage =
     (case loadSampleLibrary E of
        Inl e \<Rightarrow> ([], Some e)
      | Inr sampleLibrary \<Rightarrow>
          (let request = buildRequest E s sampleLibrary userMessage in
           case fetch E request of
             Inl e \<Rightarrow> ([Fetch request], Some e)
           | Inr response \<Rightarrow>
               if \<not> ok response then
                 (let errorData = (case json response of Inl e \<Rightarrow> Obj [] | Inr d \<Rightarrow> d) in
                  if errorData = Null
                  then ([Fetch request], Some (TypeError (nullReadMessage E ''error'')))
                  else ([Fetch request],
                        Some (Error (if truthy (getProp errorData ''error'')
                                     then toStringJs E (getProp errorData ''error'')
                                     else ''API error: '' @ showNat (httpStatus response)))))
               else
                 (case json response of
                    Inl e \<Rightarrow> ([Fetch request], Some e)
                  | Inr apiResponse \<Rightarrow>
                      if apiResponse = Null
                      then ([Fetch request], Some (TypeError (nullReadMessage E ''success'')))
                      else if \<not> truthy (getProp apiResponse ''success'')
                      then ([Fetch request],
                            Some (Error (if truthy (getProp apiResponse ''error'')
                                         then toStringJs E (getProp apiResponse ''error'')
                                         else ''Unknown API error'')))
                      else ([Fetch request] @ handleCommandResult E sampleLibrary apiResponse,
                            None))))"

text \<open>The outer \<open>catch\<close>: the error message in the chat and the toast.\<close>

definition reportError :: "thrown \<Rightarrow> effect list" where
  "reportError e =
     (let errorText = (case errorMessage e of Some m \<Rightarrow> m | None \<Rightarrow> ''Network error occurred'')
      in [AddMessage agent (Str (''Failed to process your request: '' @ errorText)) error,
          (case e of
             TypeError m \<Rightarrow>
               if includesStr m ''fetch''
               then ErrorToast ''Network error - please check your connection''
               else ErrorToast errorText
           | Error m \<Rightarrow> ErrorToast errorText
           | NonError \<Rightarrow> ErrorToast errorText)])"

definition handleSend :: "('proj, 'lib, 'ctx, 'cmd) ChatEnv \<Rightarrow> PanelState \<Rightarrow> effect list" where
  "handleSend E s =
     (if trim (inputText s) = [] \<or> isPending s then []
      else
        (let userMessage = trim (inputText s) in
         [SetInputText [], SetTextareaRows 1, AddMessage user (Str userMessage) sent,
          SetPending True] @
         (case callApi E s userMessage of
            (effects, None) \<Rightarrow> effects
          | (effects, Some e) \<Rightarrow> effects @ reportError e) @
         [SetPending False]))"

text \<open>
  An example of the surroundings: the sample library loads, the API answers with the
  given JSON, and the executors return the given results.
\<close>

definition exampleEnv ::
  "jsval \<Rightarrow> BatchResult \<Rightarrow> CommandResult \<Rightarrow> (string, string, string, jsval) ChatEnv" where
  "exampleEnv apiResponse batchResult commandResult =
     \<lparr>project = ''project at 120 bpm'',
      loadSampleLibrary = Inr ''library'',
      buildDAWContext = (\<lambda>proj lib. proj @ '' with '' @ lib),
      generateSystemPrompt = (\<lambda>ctx. ''You are the copilot of: '' @ ctx),
      fetch = (\<lambda>request. Inr \<lparr>ok = True, httpStatus = 200, json = Inr apiResponse\<rparr>),
      executeBatch = (\<lambda>batchData lib. Inr batchResult),
      parseAIResponse = (\<lambda>response. Inr response),
      executeCommand = (\<lambda>command. Inr commandResult),
      toStringJs = (\<lambda>v. case v of Str s \<Rightarrow> s | _ \<Rightarrow> ''[object Object]''),
      nullReadMessage = (\<lambda>k. ''Cannot read properties of null'')\<rparr>"

definition exampleApiResponse :: "jsval \<Rightarrow> jsval" where
  "exampleApiResponse commandResult =
     Obj [(''success'', JBool True), (''data'', Obj [(''commandResult'', commandResult)])]"

definition examplePanel :: PanelState where
  "examplePanel =
     \<lparr>inputText = '' make a beat '', isPending = False, selectedModel = gemini, messages = []\<rparr>"

text \<open>
  Vocabulary for the statements about \<open>handleSend\<close>. \<open>requestEffects\<close>: what every
  accepted send starts with. \<open>receivesCommand\<close>: the send is accepted, the library loads,
  and the API answers with success and the truthy \<open>data.commandResult\<close> \<open>br\<close>.
  \<open>batchArrives\<close>: moreover \<open>br\<close> is a batch and \<open>executeBatch\<close> returns \<open>r\<close>.
  \<open>singleArrives\<close>: \<open>br\<close> is not a batch, parses to a command, and \<open>executeCommand\<close>
  returns \<open>r\<close>.
\<close>

definition requestEffects ::
  "('proj, 'lib, 'ctx, 'cmd) ChatEnv \<Rightarrow> PanelState \<Rightarrow> 'lib \<Rightarrow> effect list" where
  "requestEffects E s lib =
     [SetInputText [], SetTextareaRows 1, AddMessage user (Str (trim (inputText s))) sent,
      SetPending True, Fetch (buildRequest E s lib (trim (inputText s)))]"

definition receivesCommand ::
  "('proj, 'lib, 'ctx, 'cmd) ChatEnv \<Rightarrow> PanelState \<Rightarrow> 'lib \<Rightarrow> jsval \<Rightarrow> bool" where
  "receivesCommand E s lib br =
     (trim (inputText s) \<noteq> [] \<and> \<not> isPending s \<and> loadSampleLibrary E = Inr lib \<and>
      (\<exists>response apiResponse.
         fetch E (buildRequest E s lib (trim (inputText s))) = Inr response \<and> ok response \<and>
         json response = Inr apiResponse \<and> truthy (getProp apiResponse ''success'') \<and>
         optChain (getProp apiResponse ''data'') ''commandResult'' = br) \<and>
      truthy br)"

definition isBatch :: "jsval \<Rightarrow> bool" where
  "isBatch br =
     (getProp br ''action'' = Str ''__batch__'' \<and>
      truthy (optChain (getProp br ''parameters'') ''actions''))"

definition batchArrives ::
  "('proj, 'lib, 'ctx, 'cmd) ChatEnv \<Rightarrow> PanelState \<Rightarrow> 'lib \<Rightarrow> jsval \<Rightarrow> BatchResult \<Rightarrow> bool"
  where
  "batchArrives E s lib br r =
     (receivesCommand E s lib br \<and> isBatch br \<and> executeBatch E (batchDataOf br) lib = Inr r)"


text \<open>
  A platform whose service state is the description of the last assistant created, and
  whose model answers with the empty JSON object.
\<close>

definition recordingPlatform :: "string Platform" where
  "recordingPlatform =
     \<lparr>BACKBOARD_API_KEY = Some ''key'',
      jsonParse = exampleJsonParse,
      createAssistant = (\<lambda>name description w. (Inr ''asst_1'', description)),
      createThread = (\<lambda>assistantId w. (Inr ''thread_1'', w)),
      addMessage = (\<lambda>threadId message llm_provider model_name w.
                      (Inr \<lparr>status = ''COMPLETED'', content = Some ''{}''\<rparr>, w))\<rparr>"

definition exampleBatch :: jsval where
  "exampleBatch =
     Obj [(''action'', Str ''__batch__''),
          (''parameters'',
           Obj [(''actions'',
                 Arr [Obj [(''action'', Str ''setBpm''), (''parameters'', Obj [(''bpm'', Num 90)])],
                      Obj [(''action'', Str ''play''), (''parameters'', Obj [])]])])]"

definition exampleSingle :: jsval where
  "exampleSingle = Obj [(''action'', Str ''play''), (''parameters'', Obj [])]"

section \<open>Properties\<close>

subsection \<open>Task classification and model routing\<close>

lemma star_nonempty: "star f n p \<noteq> []"
  by (cases n) simp_all

lemma rem_digits1_digit: "isDigit c \<Longrightarrow> rem digits1 (b, c # s) \<noteq> []"
  by (simp add: digits1_def star_nonempty)

lemma search_digits1: "\<exists>c\<in>set s. isDigit c \<Longrightarrow> search digits1 b s \<noteq> None"
proof (induction s arbitrary: b)
  case Nil
  then show ?case by simp
next
  case (Cons c s)
  show ?case
  proof (cases "rem digits1 (b, c # s)")
    case Nil
    with rem_digits1_digit have "\<not> isDigit c" by blast
    with Cons.prems have "\<exists>d\<in>set s. isDigit d" by simp
    from Cons.IH [OF this] Nil show ?thesis by simp
  next
    case (Cons q qs)
    then show ?thesis by simp
  qed
qed

lemma toLowerChar_digit: "isDigit c \<Longrightarrow> toLowerChar c = c"
  by (simp add: toLowerChar_def hasLowerCase_def isDigit_def isUpperAscii_def)

lemma toLowerCase_digit: "\<exists>c\<in>set s. isDigit c \<Longrightarrow> \<exists>c\<in>set (toLowerCase s). isDigit c"
  unfolding toLowerCase_def using toLowerChar_digit by force

text \<open>
  Claim C9. An input with at least one decimal digit is classified \<open>technical\<close>,
  whatever creative or analytical keywords it has: the \<open>\d+\<close> test on the lower-cased
  input comes before every pattern list, and lower-casing keeps the digits.
\<close>

theorem classifyTask_number_technical:
  "\<exists>c\<in>set userInput. isDigit c \<Longrightarrow> classifyTask userInput = technical"
  using search_digits1 [OF toLowerCase_digit, of userInput True]
  by (simp add: classifyTask_def test_def)

text \<open>The example of the claim: a creative request that names a tempo.\<close>

theorem classifyTask_number_technical_witness:
  "(\<exists>c\<in>set ''make a trap beat at 140 bpm''. isDigit c) \<and>
   classifyTask ''make a trap beat at 140 bpm'' = technical"
  using classifyTask_number_technical [of "''make a trap beat at 140 bpm''"]
  by (simp add: isDigit_def charCode_def)

text \<open>
  Claim C1. \<open>classifyTask\<close> is a total function; for every input it returns
  \<open>creative\<close>, \<open>technical\<close> or \<open>analytical\<close> and never \<open>fallback\<close>. The
  bucket it returns is a key of \<open>MODEL_CONFIGS\<close>, so \<open>getModelForTask\<close> returns the
  configured entry and not its built-in default: google/gemini-2.5-flash for
  \<open>creative\<close>, openai/gpt-4o for \<open>technical\<close> and
  anthropic/claude-sonnet-4-20250514 for \<open>analytical\<close>.
\<close>

theorem classifyTask_buckets:
  "classifyTask userInput \<in> {creative, technical, analytical} \<and>
   classifyTask userInput \<noteq> fallback \<and>
   map_of MODEL_CONFIGS (taskTypeName (classifyTask userInput)) =
     Some (getModelForTask (classifyTask userInput)) \<and>
   getModelForTask creative =
     \<lparr>provider = google, modelName = ''gemini-2.5-flash'',
      description = ''Google Gemini 2.5 Flash - Creative & musical tasks''\<rparr> \<and>
   getModelForTask technical =
     \<lparr>provider = openai, modelName = ''gpt-4o'',
      description = ''OpenAI GPT-4o - Technical & precise tasks''\<rparr> \<and>
   getModelForTask analytical =
     \<lparr>provider = anthropic, modelName = ''claude-sonnet-4-20250514'',
      description = ''Anthropic Claude Sonnet 4 - Analysis & explanations''\<rparr>"
  by (simp add: classifyTask_def Let_def getModelForTask_def MODEL_CONFIGS_def)

theorem classifyTask_buckets_witness:
  "classifyTask ''Make a hip hop beat'' = creative \<and>
   provider (getModelForTask (classifyTask ''Make a hip hop beat'')) = google \<and>
   modelName (getModelForTask (classifyTask ''Make a hip hop beat'')) = ''gemini-2.5-flash''"
proof -
  have c: "classifyTask ''Make a hip hop beat'' = creative" by code_simp
  from classifyTask_buckets [of "''Make a hip hop beat''"] show ?thesis
    by (simp add: c)
qed

subsection \<open>The matcher never lengthens the input\<close>

lemma star_length:
  assumes f: "\<And>p q. q \<in> set (f p) \<Longrightarrow> length (snd q) \<le> length (snd p)"
  shows "q \<in> set (star f n p) \<Longrightarrow> length (snd q) \<le> length (snd p)"
proof (induction n arbitrary: p)
  case 0
  then show ?case by simp
next
  case (Suc n)
  from Suc.prems consider "q = p"
    | p' where "p' \<in> set (f p)" "length (snd p') < length (snd p)" "q \<in> set (star f n p')"
    by auto
  then show ?case
  proof cases
    case 1
    then show ?thesis by simp
  next
    case 2
    from Suc.IH [OF 2(3)] 2(2) show ?thesis by simp
  qed
qed

lemma isPrefixOf_length: "isPrefixOf l s \<Longrightarrow> length l \<le> length s"
  by (induction l s rule: isPrefixOf.induct) simp_all

lemma rem_length: "q \<in> set (rem r p) \<Longrightarrow> length (snd q) \<le> length (snd p)"
proof (induction r arbitrary: p q)
  case (Lit l)
  then show ?case by (cases "isPrefixOf l (snd p)") simp_all
next
  case (Class P)
  then show ?case by (cases "snd p") (auto split: if_splits)
next
  case (Seq r1 r2)
  from Seq.prems obtain p' where "p' \<in> set (rem r1 p)" and "q \<in> set (rem r2 p')" by auto
  with Seq.IH show ?case by (meson order_trans)
next
  case (Alt r1 r2)
  from Alt.prems have "q \<in> set (rem r1 p) \<or> q \<in> set (rem r2 p)" by simp
  with Alt.IH show ?case by blast
next
  case (Opt r)
  from Opt.prems have "q \<in> set (rem r p) \<or> q = p" by auto
  then show ?case
  proof
    assume "q \<in> set (rem r p)"
    then show ?thesis by (rule Opt.IH)
  next
    assume "q = p"
    then show ?thesis by simp
  qed
next
  case (Star r)
  from Star.prems have "q \<in> set (star (rem r) (length (snd p)) p)" by simp
  then show ?case using Star.IH by (rule star_length [rotated])
next
  case (Plus r)
  from Plus.prems obtain p' where 1: "p' \<in> set (rem r p)"
    and 2: "q \<in> set (star (rem r) (length (snd p')) p')" by auto
  have "length (snd q) \<le> length (snd p')" using 2 Plus.IH by (rule star_length [rotated])
  with Plus.IH [OF 1] show ?case by simp
next
  case Bol
  then show ?case by (cases "fst p") simp_all
next
  case Eol
  then show ?case by (cases "snd p = []") simp_all
qed

lemma search_rest:
  assumes strict: "\<And>p q. q \<in> set (rem r p) \<Longrightarrow> length (snd q) < length (snd p)"
  shows "search r b s = Some (m, rest) \<Longrightarrow> length rest < length s"
proof (induction s arbitrary: b)
  case Nil
  then show ?case using strict [of _ "(b, [])"] by (auto split: list.splits)
next
  case (Cons c s)
  show ?case
  proof (cases "rem r (b, c # s)")
    case Nil
    with Cons.prems have "search r False s = Some (m, rest)" by simp
    from Cons.IH [OF this] show ?thesis by simp
  next
    case (Cons q qs)
    with Cons.prems have "rest = snd q" by simp
    moreover from Cons have "q \<in> set (rem r (b, c # s))" by simp
    ultimately show ?thesis using strict by fastforce
  qed
qed

text \<open>
  Every match of \<open>patternRegex\<close> begins with a quote, so it is not empty: the guard in
  \<open>execCount\<close> holds at every round of the \<open>exec\<close> loop over the system prompt.
\<close>

lemma patternRegex_progress:
  "q \<in> set (rem patternRegex p) \<Longrightarrow> length (snd q) < length (snd p)"
proof -
  assume q: "q \<in> set (rem patternRegex p)"
  obtain rest where pr: "patternRegex = Seq (Lit [CHR 0x22]) rest"
    by (simp add: patternRegex_def)
  from q obtain p' where 1: "p' \<in> set (rem (Lit [CHR 0x22]) p)" and 2: "q \<in> set (rem rest p')"
    unfolding pr by auto
  from 1 have "length (snd p') < length (snd p)"
    by (cases "snd p") (auto split: if_splits)
  with rem_length [OF 2] show ?thesis by simp
qed

lemma execCount_patternRegex:
  "execCount patternRegex b s =
     (case search patternRegex b s of
        None \<Rightarrow> 0
      | Some (m, rest) \<Rightarrow> Suc (execCount patternRegex False rest))"
  using search_rest [of patternRegex b s, OF patternRegex_progress]
  by (subst execCount.simps) (auto split: option.splits)

subsection \<open>The two mocks\<close>

text \<open>
  Claim C10. Let the lower-cased input match neither of the two branches that the later
  mock adds ("suggest" with "clip" or "next"; "beat" with "make" or "create"). Then the
  later \<open>mockBackboardResponse\<close> returns a \<open>__batch__\<close> response whose \<open>actions\<close>
  array has exactly one action; its name is the \<open>action\<close> field that the first mock
  returns for the same input, and, unless that action is \<open>clarificationNeeded\<close> (the
  default branch, where message and suggestions differ), its parameters are those of the
  first mock too.
\<close>

theorem mock_batch_wraps_old:
  assumes "\<not> (includesStr (toLowerCase text) ''suggest'' \<and>
              (includesStr (toLowerCase text) ''clip'' \<or> includesStr (toLowerCase text) ''next''))"
    and "\<not> (includesStr (toLowerCase text) ''beat'' \<and>
              (includesStr (toLowerCase text) ''make'' \<or> includesStr (toLowerCase text) ''create''))"
  shows "\<exists>ps. action (mockBackboardResponse text model systemPrompt) = ''__batch__'' \<and>
           parameters (mockBackboardResponse text model systemPrompt) =
             Obj [(''actions'',
                   Arr [Obj [(''action'', Str (action (mockBackboardResponse_old text model'))),
                             (''parameters'', ps)]])] \<and>
           (action (mockBackboardResponse_old text model') \<noteq> ''clarificationNeeded''
              \<longrightarrow> ps = parameters (mockBackboardResponse_old text model'))"
proof -
  let ?lt = "toLowerCase text"
  let ?pat = "includesStr ?lt ''pattern'' \<and> (includesStr ?lt ''add'' \<or> includesStr ?lt ''create'')"
  let ?bpm = "includesStr ?lt ''bpm'' \<or> includesStr ?lt ''tempo''"
  let ?play = "test (seqs [Bol, oneOf [''play'', ''start'']]) ?lt \<or> includesStr ?lt ''play it''"
  let ?stop = "test (seqs [Bol, Lit ''stop'']) ?lt"
  let ?note = "includesStr ?lt ''note''"
  note defs = mockBackboardResponse_def mockBackboardResponse_old_def wrapInBatch_def Let_def
  consider (cPat) "?pat" | (cBpm) "\<not> ?pat" "?bpm" | (cPlay) "\<not> ?pat" "\<not> ?bpm" "?play"
    | (cStop) "\<not> ?pat" "\<not> ?bpm" "\<not> ?play" "?stop"
    | (cNote) "\<not> ?pat" "\<not> ?bpm" "\<not> ?play" "\<not> ?stop" "?note"
    | (cDflt) "\<not> ?pat" "\<not> ?bpm" "\<not> ?play" "\<not> ?stop" "\<not> ?note"
    by blast
  then show ?thesis
  proof cases
    case cPat
    with assms show ?thesis unfolding defs by (simp only: if_True if_False) simp
  next
    case cBpm
    with assms show ?thesis unfolding defs by (simp only: if_True if_False) simp
  next
    case cPlay
    with assms show ?thesis unfolding defs by (simp only: if_True if_False) simp
  next
    case cStop
    with assms show ?thesis unfolding defs by (simp only: if_True if_False) simp
  next
    case cNote
    with assms show ?thesis unfolding defs by (simp only: if_True if_False) simp
  next
    case cDflt
    with assms show ?thesis unfolding defs by (simp only: if_True if_False) simp
  qed
qed

text \<open>A tempo request takes the same branch in both versions.\<close>

theorem mock_batch_wraps_old_witness:
  "parameters (mockBackboardResponse ''Set BPM to 128'' gemini None) =
     Obj [(''actions'', Arr [Obj [(''action'', Str ''setBpm''),
                                  (''parameters'', Obj [(''bpm'', Num 128)])]])] \<and>
   action (mockBackboardResponse_old ''Set BPM to 128'' gemini) = ''setBpm'' \<and>
   parameters (mockBackboardResponse_old ''Set BPM to 128'' gemini) = Obj [(''bpm'', Num 128)]"
proof -
  let ?t = "''Set BPM to 128''"
  have a: "\<not> (includesStr (toLowerCase ?t) ''suggest'' \<and>
              (includesStr (toLowerCase ?t) ''clip'' \<or> includesStr (toLowerCase ?t) ''next''))"
    by code_simp
  have b: "\<not> (includesStr (toLowerCase ?t) ''beat'' \<and>
              (includesStr (toLowerCase ?t) ''make'' \<or> includesStr (toLowerCase ?t) ''create''))"
    by code_simp
  have c: "action (mockBackboardResponse_old ?t gemini) = ''setBpm''"
    by code_simp
  have d: "parameters (mockBackboardResponse_old ?t gemini) = Obj [(''bpm'', Num 128)]"
    by code_simp
  from mock_batch_wraps_old [OF a b, of gemini None gemini] obtain ps where
    "parameters (mockBackboardResponse ?t gemini None) =
       Obj [(''actions'', Arr [Obj [(''action'', Str (action (mockBackboardResponse_old ?t gemini))),
                                    (''parameters'', ps)]])]"
    and "action (mockBackboardResponse_old ?t gemini) \<noteq> ''clarificationNeeded''
           \<longrightarrow> ps = parameters (mockBackboardResponse_old ?t gemini)"
    by blast
  with c d show ?thesis
    by simp
qed

subsection \<open>The assistant and thread cache\<close>

lemma getClient_cases:
  "getClient P st = (Inl (Error ''Backboard API key not configured''), st) \<or>
   getClient P st = (Inr (), st) \<or> getClient P st = (Inr (), st\<lparr>client := True\<rparr>)"
  by (simp add: getClient_def)

lemma getClient_keeps:
  assumes "getClient P st = (r, st')"
  shows "cachedAssistantId st' = cachedAssistantId st \<and> cachedThreadId st' = cachedThreadId st \<and>
         cachedContextHash st' = cachedContextHash st \<and> trace st' = trace st \<and>
         world st' = world st"
  using assms getClient_cases [of P st] by auto





lemma getAssistant_creates:
  "\<not> truthyStr (cachedAssistantId st) \<Longrightarrow> truthyStr (BACKBOARD_API_KEY P) \<Longrightarrow>
   fst (getAssistant P p st) = fst (createAssistant P ''Pulse Studio Music Copilot'' p (world st))"
  by (auto simp: getAssistant_def getClient_def Let_def split: prod.splits sum.splits)

subsection \<open>The retry loop\<close>

lemma sendLoop_done:
  "MAX_RETRIES < attempt \<Longrightarrow>
   sendLoop P text model p attempt st = (Inr (mockBackboardResponse text model (Some p)), st)"
  by (subst sendLoop.simps) simp

lemma sendLoop_success:
  "attempt \<le> MAX_RETRIES \<Longrightarrow> attemptOnce P text p st = (Inr r, st1) \<Longrightarrow>
   sendLoop P text model p attempt st = (Inr r, st1)"
  by (subst sendLoop.simps) simp

lemma sendLoop_fatal:
  "attempt \<le> MAX_RETRIES \<Longrightarrow> attemptOnce P text p st = (Inl e, st1) \<Longrightarrow> noRetry e = Some e' \<Longrightarrow>
   sendLoop P text model p attempt st = (Inl e', logFailure attempt st1)"
  by (subst sendLoop.simps) simp

lemma sendLoop_retry:
  "attempt \<le> MAX_RETRIES \<Longrightarrow> attemptOnce P text p st = (Inl e, st1) \<Longrightarrow> noRetry e = None \<Longrightarrow>
   sendLoop P text model p attempt st =
     sendLoop P text model p (attempt + 1)
       (if attempt < MAX_RETRIES
        then sleep (RETRY_DELAY_MS * (attempt + 1)) (logFailure attempt st1)
        else logFailure attempt st1)"
  by (subst sendLoop.simps) simp








lemma noRetry_other:
  "(\<forall>m. errorMessage e = Some m \<longrightarrow>
      \<not> includesStr m ''401'' \<and> \<not> includesStr m ''403'' \<and> \<not> includesStr m ''429'') \<Longrightarrow>
   noRetry e = None"
  by (cases e) (simp_all add: noRetry_def)


lemma sendToModel_live:
  "truthyStr (BACKBOARD_API_KEY P) \<Longrightarrow>
   sendToModel P text model sp st = sendLoop P text model (effectiveSystemPrompt sp) 0 st"
  by (simp add: sendToModel_def USE_MOCK_def)


text \<open>
  The first version of \<open>sendToModel\<close> is always in mock mode: it sleeps 300 ms and
  returns the mock's response, and its retry loop is never entered.
\<close>

lemma sendToModel_old_mock:
  "sendToModel_old apiKey text model st =
     (Inr (mockBackboardResponse_old text model), st\<lparr>trace_old := trace_old st @ [Slept 300]\<rparr>)"
  by (simp add: sendToModel_old_def USE_MOCK_old_def)





subsection \<open>Responses that are not JSON\<close>

lemma getClient_ok:
  "truthyStr (BACKBOARD_API_KEY P) \<Longrightarrow> \<exists>st'. getClient P st = (Inr (), st') \<and> world st' = world st"
  by (simp add: getClient_def)

lemma parseContent_unparsable:
  "jsonParse P (stripFences c) = None \<Longrightarrow>
   parseContent P text c = unknownResponse text (stripFences c)"
  by (simp add: parseContent_def)

text \<open>
  Claim C3, amended. Let an attempt get the model's response: assistant and thread are
  there, \<open>addMessage\<close> returns, and the status of the response is not \<open>FAILED\<close>. If
  its content, with the code fences removed and trimmed, is not valid JSON, then
  \<open>sendToModel\<close> does not throw: it returns a \<open>__batch__\<close> response whose
  \<open>actions\<close> array is exactly one action named \<open>unknown\<close>, with the user's text as
  \<open>originalText\<close> and, as \<open>rawResponse\<close>, the stripped and trimmed text that failed
  to parse. This holds for the first attempt of \<open>sendToModel\<close> and for every later
  attempt of its loop.
\<close>

theorem sendToModel_unparsable:
  assumes key: "truthyStr (BACKBOARD_API_KEY P)"
    and asst: "getAssistant P (effectiveSystemPrompt sp) st = (Inr a, st1)"
    and thread: "getThread P a st1 = (Inr t, st2)"
    and msg: "addMessage P t text (provider (getModelForTask (classifyTask text)))
                (modelName (getModelForTask (classifyTask text))) (world st2) = (Inr response, w)"
    and ok: "status response \<noteq> ''FAILED''"
    and bad: "jsonParse P (stripFences (case content response of None \<Rightarrow> [] | Some c \<Rightarrow> c)) = None"
  shows "fst (sendToModel P text model sp st) =
     Inr \<lparr>action = ''__batch__'',
          parameters =
            Obj [(''actions'',
                  Arr [Obj [(''action'', Str ''unknown''),
                            (''parameters'',
                             Obj [(''originalText'', Str text),
                                  (''reason'', Str ''Failed to parse AI response''),
                                  (''rawResponse'',
                                   Str (stripFences
                                          (case content response of None \<Rightarrow> [] | Some c \<Rightarrow> c)))])]])],
          confidence = Undefined,
          reasoning = Undefined\<rparr> \<and>
     (\<forall>attempt \<le> MAX_RETRIES.
        fst (sendLoop P text model (effectiveSystemPrompt sp) attempt st) =
          fst (sendToModel P text model sp st))"
proof -
  from getClient_ok [OF key, of st2] obtain st3 where
    c: "getClient P st2 = (Inr (), st3)" and w3: "world st3 = world st2" by blast
  let ?c = "case content response of None \<Rightarrow> [] | Some c \<Rightarrow> c"
  have "attemptOnce P text (effectiveSystemPrompt sp) st =
          (Inr (parseContent P text ?c), st3\<lparr>world := w\<rparr>)"
    using asst thread c w3 msg ok by (simp add: attemptOnce_def Let_def)
  then have loop: "attempt \<le> MAX_RETRIES \<Longrightarrow>
      sendLoop P text model (effectiveSystemPrompt sp) attempt st =
        (Inr (parseContent P text ?c), st3\<lparr>world := w\<rparr>)" for attempt
    by (simp add: sendLoop_success)
  from loop [of 0] have "sendToModel P text model sp st =
      (Inr (parseContent P text ?c), st3\<lparr>world := w\<rparr>)"
    using key by (simp add: sendToModel_live)
  with bad loop show ?thesis
    by (simp add: parseContent_unparsable unknownResponse_def)
qed

text \<open>The model answers with prose inside a code fence.\<close>

theorem sendToModel_unparsable_witness:
  "fst (sendToModel
          (examplePlatform
             (Inr \<lparr>status = ''COMPLETED'',
                   content = Some (''```json'' @ [CHR 0x0A] @ ''Sure, here is a beat!'' @ [CHR 0x0A] @ ''```'')\<rparr>))
          ''make it nice'' gemini (Some ''c'') (initialBackend 0)) =
     Inr \<lparr>action = ''__batch__'',
          parameters =
            Obj [(''actions'',
                  Arr [Obj [(''action'', Str ''unknown''),
                            (''parameters'',
                             Obj [(''originalText'', Str ''make it nice''),
                                  (''reason'', Str ''Failed to parse AI response''),
                                  (''rawResponse'', Str ''Sure, here is a beat!'')])]])],
          confidence = Undefined,
          reasoning = Undefined\<rparr>"
proof -
  let ?r = "\<lparr>status = ''COMPLETED'',
        content = Some (''```json'' @ [CHR 0x0A] @ ''Sure, here is a beat!'' @ [CHR 0x0A] @ ''```'')\<rparr>"
  let ?P = "examplePlatform (Inr ?r)"
  let ?s1 = "\<lparr>client = True, cachedAssistantId = Some ''asst_1'', cachedThreadId = None,
       cachedContextHash = Some (hashContext ''c''), world = 0::nat, trace = []\<rparr>"
  let ?s2 = "\<lparr>client = True, cachedAssistantId = Some ''asst_1'', cachedThreadId = Some ''thread_1'',
       cachedContextHash = Some (hashContext ''c''), world = 0::nat, trace = []\<rparr>"
  have key: "truthyStr (BACKBOARD_API_KEY ?P)" by code_simp
  have asst: "getAssistant ?P (effectiveSystemPrompt (Some ''c'')) (initialBackend 0) = (Inr ''asst_1'', ?s1)"
    by code_simp
  have thread: "getThread ?P ''asst_1'' ?s1 = (Inr ''thread_1'', ?s2)" by code_simp
  have msg: "addMessage ?P ''thread_1'' ''make it nice''
      (provider (getModelForTask (classifyTask ''make it nice'')))
      (modelName (getModelForTask (classifyTask ''make it nice''))) (world ?s2) = (Inr ?r, 1)"
    by (simp add: examplePlatform_def)
  have ok: "status ?r \<noteq> ''FAILED''" by simp
  have strip: "stripFences (case content ?r of None \<Rightarrow> [] | Some c \<Rightarrow> c) = ''Sure, here is a beat!''"
    by code_simp
  have bad: "jsonParse ?P (stripFences (case content ?r of None \<Rightarrow> [] | Some c \<Rightarrow> c)) = None"
    unfolding strip by code_simp
  from sendToModel_unparsable [OF key asst thread msg ok bad, of gemini, THEN conjunct1]
  show ?thesis
    unfolding strip .
qed

text \<open>
  Claim C3 as stated fails in two ways. A response with the status \<open>FAILED\<close> is thrown
  before its content is looked at: when that content is not JSON, \<open>sendToModel\<close> throws
  (here because the message holds 429), or, the error being retried three times, returns
  the mock's response; in neither case the \<open>unknown\<close> action. And for a response that is
  parsed, \<open>rawResponse\<close> is not the response as received: the fences are gone and the
  text is trimmed.
\<close>

theorem sendToModel_failed_response_counterexample:
  "exampleJsonParse (stripFences ''Too many requests (429)'') = None \<and>
   fst (sendToModel
          (examplePlatform (Inr \<lparr>status = ''FAILED'', content = Some ''Too many requests (429)''\<rparr>))
          ''make it nice'' gemini (Some ''c'') (initialBackend 0)) =
     Inl (Error ''Rate limit exceeded. Please try again later.'') \<and>
   exampleJsonParse (stripFences ''Service unavailable'') = None \<and>
   fst (sendToModel
          (examplePlatform (Inr \<lparr>status = ''FAILED'', content = Some ''Service unavailable''\<rparr>))
          ''make it nice'' gemini (Some ''c'') (initialBackend 0)) =
     Inr (mockBackboardResponse ''make it nice'' gemini (Some ''c'')) \<and>
   stripFences (''```json'' @ [CHR 0x0A] @ ''Sure, here is a beat!'' @ [CHR 0x0A] @ ''```'') =
     ''Sure, here is a beat!'' \<and>
   fst (sendToModel
          (examplePlatform
             (Inr \<lparr>status = ''COMPLETED'',
                   content = Some (''```json'' @ [CHR 0x0A] @ ''Sure, here is a beat!'' @ [CHR 0x0A] @ ''```'')\<rparr>))
          ''make it nice'' gemini (Some ''c'') (initialBackend 0)) \<noteq>
     Inr (unknownResponse ''make it nice''
            (''```json'' @ [CHR 0x0A] @ ''Sure, here is a beat!'' @ [CHR 0x0A] @ ''```''))"
  by code_simp

subsection \<open>The cache of assistant and thread\<close>

lemma getAssistant_cached:
  "truthyStr (cachedAssistantId st) \<Longrightarrow> cachedContextHash st = Some (hashContext p) \<Longrightarrow>
   getAssistant P p st = (Inr (the (cachedAssistantId st)), st)"
  by (simp add: getAssistant_def)

lemma getAssistant_changed:
  "truthyStr (cachedAssistantId st) \<Longrightarrow> cachedContextHash st \<noteq> Some (hashContext p) \<Longrightarrow>
   getAssistant P p st = getAssistant P p (st\<lparr>cachedAssistantId := None, cachedThreadId := None\<rparr>)"
  by (simp add: getAssistant_def truthyStr_def)

lemma getAssistant_uncached_thread:
  "\<not> truthyStr (cachedAssistantId st) \<Longrightarrow>
   cachedThreadId (snd (getAssistant P p st)) = cachedThreadId st"
  by (auto simp: getAssistant_def Let_def split: prod.splits sum.splits dest: getClient_keeps)

lemma getAssistant_changed_thread:
  assumes "truthyStr (cachedAssistantId st)" and "cachedContextHash st \<noteq> Some (hashContext p)"
  shows "cachedThreadId (snd (getAssistant P p st)) = None"
proof -
  let ?c = "st\<lparr>cachedAssistantId := None, cachedThreadId := None\<rparr>"
  have "cachedThreadId (snd (getAssistant P p ?c)) = cachedThreadId ?c"
    by (rule getAssistant_uncached_thread) (simp add: truthyStr_def)
  with getAssistant_changed [OF assms, of P] show ?thesis by simp
qed

lemma getAssistant_cacheOk:
  assumes "cacheInv st"
  shows "cacheOk p (snd (getAssistant P p st))"
proof (cases "truthyStr (cachedAssistantId st)")
  case False
  with assms have "\<not> truthyStr (cachedThreadId st)" by (simp add: cacheInv_def)
  with getAssistant_uncached_thread [OF False, of P p] show ?thesis
    by (simp add: cacheOk_def)
next
  case True
  show ?thesis
  proof (cases "cachedContextHash st = Some (hashContext p)")
    case same: True
    with True show ?thesis by (simp add: getAssistant_cached cacheOk_def)
  next
    case False
    from getAssistant_changed_thread [OF True False, of P] show ?thesis
      by (simp add: cacheOk_def truthyStr_def)
  qed
qed

lemma getAssistant_returns:
  assumes ids: "\<forall>n d w a w'. createAssistant P n d w = (Inr a, w') \<longrightarrow> a \<noteq> []"
    and r: "getAssistant P p st = (Inr a, st1)"
  shows "truthyStr (cachedAssistantId st1) \<and> cachedContextHash st1 = Some (hashContext p)"
proof (cases "truthyStr (cachedAssistantId st) \<and> cachedContextHash st = Some (hashContext p)")
  case True
  with r show ?thesis by (simp add: getAssistant_cached)
next
  case False
  let ?c = "if truthyStr (cachedAssistantId st) then st\<lparr>cachedAssistantId := None, cachedThreadId := None\<rparr> else st"
  have nc: "\<not> truthyStr (cachedAssistantId ?c)" by (simp add: truthyStr_def)
  have eq: "getAssistant P p st = getAssistant P p ?c"
    using False getAssistant_changed [of st p P] by auto
  obtain rc st2 where c: "getClient P ?c = (rc, st2)" by (cases "getClient P ?c")
  from r eq nc c obtain u where rc: "rc = Inr u"
    by (cases rc) (auto simp: getAssistant_def Let_def split: if_splits)
  obtain ra w where ca: "createAssistant P ''Pulse Studio Music Copilot'' p (world st2) = (ra, w)"
    by (cases "createAssistant P ''Pulse Studio Music Copilot'' p (world st2)")
  from r eq nc c rc ca have ra: "ra = Inr a"
    by (cases ra) (auto simp: getAssistant_def Let_def split: if_splits)
  with ids ca have "a \<noteq> []" by blast
  moreover from r eq nc c rc ca ra
  have "st1 = st2\<lparr>world := w, cachedAssistantId := Some a, cachedContextHash := Some (hashContext p)\<rparr>"
    by (auto simp: getAssistant_def Let_def split: if_splits)
  ultimately show ?thesis by (simp add: truthyStr_def)
qed

lemma getThread_keeps:
  "getThread P a st = (r, st') \<Longrightarrow>
   cachedAssistantId st' = cachedAssistantId st \<and> cachedContextHash st' = cachedContextHash st"
  by (auto simp: getThread_def split: prod.splits sum.splits if_splits dest: getClient_keeps)

lemma cacheOk_fields:
  "cachedAssistantId st' = cachedAssistantId st \<Longrightarrow> cachedThreadId st' = cachedThreadId st \<Longrightarrow>
   cachedContextHash st' = cachedContextHash st \<Longrightarrow> cacheOk p st' = cacheOk p st"
  by (simp add: cacheOk_def)

lemma attemptOnce_cacheOk:
  assumes ids: "\<forall>n d w a w'. createAssistant P n d w = (Inr a, w') \<longrightarrow> a \<noteq> []"
    and inv: "cacheInv st"
  shows "cacheOk p (snd (attemptOnce P text p st))"
proof -
  obtain r1 st1 where g1: "getAssistant P p st = (r1, st1)" by (cases "getAssistant P p st")
  have ok1: "cacheOk p st1" using getAssistant_cacheOk [OF inv, of p P] g1 by simp
  show ?thesis
  proof (cases r1)
    case (Inl e)
    with g1 ok1 show ?thesis by (simp add: attemptOnce_def)
  next
    case (Inr a)
    from getAssistant_returns [OF ids g1 [unfolded Inr]]
    have a1: "truthyStr (cachedAssistantId st1)" and h1: "cachedContextHash st1 = Some (hashContext p)"
      by simp_all
    obtain r2 st2 where g2: "getThread P a st1 = (r2, st2)" by (cases "getThread P a st1")
    from getThread_keeps [OF g2] a1 h1
    have a2: "truthyStr (cachedAssistantId st2)" and h2: "cachedContextHash st2 = Some (hashContext p)"
      by simp_all
    then have ok2: "cacheOk p st2" by (simp add: cacheOk_def)
    show ?thesis
    proof (cases r2)
      case (Inl e)
      with g1 g2 ok2 Inr show ?thesis by (simp add: attemptOnce_def)
    next
      case r2: (Inr t)
      obtain r3 st3 where g3: "getClient P st2 = (r3, st3)" by (cases "getClient P st2")
      from getClient_keeps [OF g3] a2 h2
      have "cacheOk p (st3\<lparr>world := w\<rparr>)" and "cacheOk p st3" for w
        by (simp_all add: cacheOk_def)
      then show ?thesis
        using g1 g2 g3 Inr r2
        by (cases r3) (auto simp: attemptOnce_def Let_def split: prod.splits sum.splits)
    qed
  qed
qed

lemma cacheOk_imp_cacheInv: "cacheOk p st \<Longrightarrow> cacheInv st"
  by (simp add: cacheOk_def cacheInv_def)

lemma sendLoop_cacheOk:
  "\<forall>n d w a w'. createAssistant P n d w = (Inr a, w') \<longrightarrow> a \<noteq> [] \<Longrightarrow>
   cacheInv st \<Longrightarrow> attempt \<le> MAX_RETRIES \<or> cacheOk p st \<Longrightarrow>
   cacheOk p (snd (sendLoop P text model p attempt st))"
proof (induction P "text" model p attempt st rule: sendLoop.induct)
  case (1 P text' model p attempt st)
  show ?case
  proof (cases "attempt \<le> MAX_RETRIES")
    case False
    with "1.prems" show ?thesis by (simp add: sendLoop_done)
  next
    case True
    obtain r st1 where a: "attemptOnce P text' p st = (r, st1)"
      by (cases "attemptOnce P text' p st")
    have ok1: "cacheOk p st1"
      using attemptOnce_cacheOk [OF "1.prems"(1) "1.prems"(2), of p text'] a by simp
    show ?thesis
    proof (cases r)
      case (Inr resp)
      with a True ok1 show ?thesis by (simp add: sendLoop_success)
    next
      case (Inl e)
      show ?thesis
      proof (cases "noRetry e")
        case (Some e')
        with a True Inl ok1 show ?thesis
          by (simp add: sendLoop_fatal logFailure_def cacheOk_def)
      next
        case None
        let ?st' = "if attempt < MAX_RETRIES
                    then sleep (RETRY_DELAY_MS * (attempt + 1)) (logFailure attempt st1)
                    else logFailure attempt st1"
        have ok': "cacheOk p ?st'" using ok1 by (simp add: sleep_def logFailure_def cacheOk_def)
        have "cacheOk p (snd (sendLoop P text' model p (attempt + 1) ?st'))"
          using "1.IH" [OF True a [symmetric] Inl None "1.prems"(1)]
            cacheOk_imp_cacheInv [OF ok'] ok' by blast
        then show ?thesis
          using a True Inl None by (simp add: sendLoop_retry)
      qed
    qed
  qed
qed


lemma getAssistant_segments:
  "getAssistant P p st =
     (case getAssistant_start P p st of
        (Finished r, st') \<Rightarrow> (r, st')
      | (Suspended outcome, st') \<Rightarrow> getAssistant_resume p outcome st')"
  by (simp add: getAssistant_def getAssistant_start_def getAssistant_resume_def Let_def
           split: prod.splits sum.splits)

lemma getThread_segments:
  "getThread P a st =
     (case getThread_start P a st of
        (Finished r, st') \<Rightarrow> (r, st')
      | (Suspended outcome, st') \<Rightarrow> getThread_resume outcome st')"
  by (simp add: getThread_def getThread_start_def getThread_resume_def
           split: prod.splits sum.splits)

text \<open>
  Claim C6, amended: for requests handled one after the other, on a service whose
  \<open>createAssistant\<close> never returns an empty id. (1) Cache hit: with an assistant cached
  and \<open>hashContext systemPrompt\<close> equal to the cached hash, \<open>getAssistant\<close> returns the
  cached id and leaves the whole state, the service's included, as it was: no SDK call.
  (2) Changed context: with an assistant cached and a different hash, \<open>getAssistant\<close>
  behaves as on the state with \<open>cachedAssistantId\<close> and \<open>cachedThreadId\<close> both
  cleared: it returns what \<open>createAssistant\<close> returns or throws for the new prompt (the
  API key being set), and afterwards no thread is cached.
  (3) The invariant: from a state in which a thread id is cached only together with an
  assistant id, \<open>getAssistant\<close>, a whole attempt, and \<open>sendToModel\<close> lead to such a
  state again, and after them a cached thread id stands beside a cached assistant id
  whose stored hash is the hash of the current system prompt. The freshly loaded module
  satisfies the invariant.
  (4) Handled one after the other means: nothing runs between the two parts of
  \<open>getAssistant\<close>, nor between the two parts of \<open>getThread\<close>; the functions
  \<open>getAssistant\<close> and \<open>getThread\<close> of (1) to (3) are these parts run back to back.
\<close>

theorem assistant_cache_invariant:
  assumes ids: "\<forall>n d w a w'. createAssistant P n d w = (Inr a, w') \<longrightarrow> a \<noteq> []"
  shows "(truthyStr (cachedAssistantId st) \<and> cachedContextHash st = Some (hashContext p) \<longrightarrow>
            getAssistant P p st = (Inr (the (cachedAssistantId st)), st)) \<and>
         (truthyStr (cachedAssistantId st) \<and> cachedContextHash st \<noteq> Some (hashContext p) \<longrightarrow>
            getAssistant P p st =
              getAssistant P p (st\<lparr>cachedAssistantId := None, cachedThreadId := None\<rparr>) \<and>
            cachedThreadId (snd (getAssistant P p st)) = None \<and>
            (truthyStr (BACKBOARD_API_KEY P) \<longrightarrow>
               fst (getAssistant P p st) =
                 fst (createAssistant P ''Pulse Studio Music Copilot'' p (world st)))) \<and>
         (cacheInv st \<longrightarrow> cacheOk p (snd (getAssistant P p st))) \<and>
         (cacheInv st \<longrightarrow> cacheOk p (snd (attemptOnce P text p st))) \<and>
         (cacheInv st \<longrightarrow> cacheInv (snd (sendToModel P text model sp st))) \<and>
         (cacheInv st \<and> truthyStr (BACKBOARD_API_KEY P) \<longrightarrow>
            cacheOk (effectiveSystemPrompt sp) (snd (sendToModel P text model sp st))) \<and>
         cacheInv (initialBackend w) \<and>
         getAssistant P p st =
           (case getAssistant_start P p st of
              (Finished r, st') \<Rightarrow> (r, st')
            | (Suspended outcome, st') \<Rightarrow> getAssistant_resume p outcome st') \<and>
         getThread P a st =
           (case getThread_start P a st of
              (Finished r, st') \<Rightarrow> (r, st')
            | (Suspended outcome, st') \<Rightarrow> getThread_resume outcome st')"
proof (intro conjI impI)
  assume "truthyStr (cachedAssistantId st) \<and> cachedContextHash st = Some (hashContext p)"
  then show "getAssistant P p st = (Inr (the (cachedAssistantId st)), st)"
    by (simp add: getAssistant_cached)
next
  assume c: "truthyStr (cachedAssistantId st) \<and> cachedContextHash st \<noteq> Some (hashContext p)"
  then show "getAssistant P p st =
      getAssistant P p (st\<lparr>cachedAssistantId := None, cachedThreadId := None\<rparr>)"
    using getAssistant_changed [of st p P] by blast
  from c show "cachedThreadId (snd (getAssistant P p st)) = None"
    using getAssistant_changed_thread [of st p P] by blast
  assume key: "truthyStr (BACKBOARD_API_KEY P)"
  let ?c = "st\<lparr>cachedAssistantId := None, cachedThreadId := None\<rparr>"
  have nc: "\<not> truthyStr (cachedAssistantId ?c)" by (simp add: truthyStr_def)
  from getAssistant_creates [OF nc key]
  have "fst (getAssistant P p ?c) =
      fst (createAssistant P ''Pulse Studio Music Copilot'' p (world ?c))" .
  with c show "fst (getAssistant P p st) =
      fst (createAssistant P ''Pulse Studio Music Copilot'' p (world st))"
    using getAssistant_changed [of st p P] by simp
next
  assume "cacheInv st"
  then show "cacheOk p (snd (getAssistant P p st))" by (rule getAssistant_cacheOk)
next
  assume "cacheInv st"
  with ids show "cacheOk p (snd (attemptOnce P text p st))" by (rule attemptOnce_cacheOk)
next
  assume inv: "cacheInv st"
  show "cacheInv (snd (sendToModel P text model sp st))"
  proof (cases "truthyStr (BACKBOARD_API_KEY P)")
    case True
    have "cacheOk (effectiveSystemPrompt sp)
            (snd (sendLoop P text model (effectiveSystemPrompt sp) 0 st))"
      using sendLoop_cacheOk [OF ids inv, of 0] by simp
    with True show ?thesis by (simp add: sendToModel_live cacheOk_imp_cacheInv)
  next
    case False
    with inv show ?thesis by (simp add: sendToModel_def USE_MOCK_def)
  qed
next
  assume "cacheInv st \<and> truthyStr (BACKBOARD_API_KEY P)"
  then show "cacheOk (effectiveSystemPrompt sp) (snd (sendToModel P text model sp st))"
    using sendLoop_cacheOk [OF ids, of st 0 "effectiveSystemPrompt sp" "text" model]
    by (simp add: sendToModel_live)
next
  show "cacheInv (initialBackend w)"
    by (simp add: cacheInv_def initialBackend_def truthyStr_def)
next
  show "getAssistant P p st =
      (case getAssistant_start P p st of
         (Finished r, st') \<Rightarrow> (r, st')
       | (Suspended outcome, st') \<Rightarrow> getAssistant_resume p outcome st')"
    by (rule getAssistant_segments)
next
  show "getThread P a st =
      (case getThread_start P a st of
         (Finished r, st') \<Rightarrow> (r, st')
       | (Suspended outcome, st') \<Rightarrow> getThread_resume outcome st')"
    by (rule getThread_segments)
qed

text \<open>
  A state with assistant and thread cached for the prompt \<open>a\<close>: a request with the same
  prompt is a cache hit; a request with the prompt \<open>b\<close> drops the thread and stores the
  new hash; a whole \<open>sendToModel\<close> with \<open>b\<close> ends with a thread beside an assistant of
  that hash.
\<close>

theorem assistant_cache_invariant_witness:
  "getAssistant (examplePlatform (Inl (Error ''timeout''))) ''a''
     \<lparr>client = True, cachedAssistantId = Some ''asst_1'', cachedThreadId = Some ''thread_1'',
      cachedContextHash = Some (hashContext ''a''), world = 0, trace = []\<rparr> =
     (Inr ''asst_1'',
      \<lparr>client = True, cachedAssistantId = Some ''asst_1'', cachedThreadId = Some ''thread_1'',
       cachedContextHash = Some (hashContext ''a''), world = 0, trace = []\<rparr>) \<and>
   cachedThreadId (snd (getAssistant (examplePlatform (Inl (Error ''timeout''))) ''b''
     \<lparr>client = True, cachedAssistantId = Some ''asst_1'', cachedThreadId = Some ''thread_1'',
      cachedContextHash = Some (hashContext ''a''), world = 0, trace = []\<rparr>)) = None \<and>
   cacheOk ''b'' (snd (sendToModel (examplePlatform (Inl (Error ''timeout''))) ''stop'' gemini (Some ''b'')
     \<lparr>client = True, cachedAssistantId = Some ''asst_1'', cachedThreadId = Some ''thread_1'',
      cachedContextHash = Some (hashContext ''a''), world = 0, trace = []\<rparr>))"
proof -
  let ?P = "examplePlatform (Inl (Error ''timeout''))"
  let ?s = "\<lparr>client = True, cachedAssistantId = Some ''asst_1'', cachedThreadId = Some ''thread_1'',
      cachedContextHash = Some (hashContext ''a''), world = 0::nat, trace = []\<rparr>"
  have ids: "\<forall>n d w a w'. createAssistant ?P n d w = (Inr a, w') \<longrightarrow> a \<noteq> []"
    by (simp add: examplePlatform_def)
  have cached: "truthyStr (cachedAssistantId ?s)" by (simp add: truthyStr_def)
  have ne: "hashContext ''a'' \<noteq> hashContext ''b''" by code_simp
  have inv: "cacheInv ?s" by (simp add: cacheInv_def truthyStr_def)
  have key: "truthyStr (BACKBOARD_API_KEY ?P)" by (simp add: examplePlatform_def truthyStr_def)
  have eff: "effectiveSystemPrompt (Some ''b'') = ''b''"
    by (simp add: effectiveSystemPrompt_def truthyStr_def)
  note I = assistant_cache_invariant [OF ids, of ?s _ "''stop''" gemini "Some ''b''"]
  have "getAssistant ?P ''a'' ?s = (Inr (the (cachedAssistantId ?s)), ?s)"
    by (rule I [of "''a''", THEN conjunct1, rule_format]) (simp add: truthyStr_def)
  then have 1: "getAssistant ?P ''a'' ?s = (Inr ''asst_1'', ?s)" by simp
  have 2: "cachedThreadId (snd (getAssistant ?P ''b'' ?s)) = None"
    by (rule I [of "''b''", THEN conjunct2, THEN conjunct1, rule_format, THEN conjunct2,
                THEN conjunct1])
       (simp add: truthyStr_def ne)
  have "cacheOk (effectiveSystemPrompt (Some ''b''))
          (snd (sendToModel ?P ''stop'' gemini (Some ''b'') ?s))"
    by (rule I [of "''b''", THEN conjunct2, THEN conjunct2, THEN conjunct2, THEN conjunct2,
                THEN conjunct2, THEN conjunct1, rule_format])
       (simp add: inv key)
  then have 3: "cacheOk ''b'' (snd (sendToModel ?P ''stop'' gemini (Some ''b'') ?s))"
    unfolding eff .
  from 1 2 3 show ?thesis by blast
qed

text \<open>
  Claim C6 as stated fails in two ways. Two requests that overlap: request A, with the
  prompt \<open>a\<close>, has its assistant and waits for \<open>createThread\<close>; request B, with
  the prompt \<open>b\<close>, starts meanwhile, clears the cache and waits for
  \<open>createAssistant\<close>; A goes on and caches its thread, which now stands beside no
  assistant; B goes on, caches its assistant, finds A's thread in the cache and sends on
  it, a thread of the assistant made for the prompt \<open>a\<close>. And a service that returns
  the empty string as the assistant's id: already the first request ends with a thread
  cached beside an assistant id that counts as absent.
\<close>

theorem assistant_cache_overlap_counterexample:
  "cacheInv (initialBackend (0::nat)) \<and>
   getAssistant numberingPlatform ''a'' (initialBackend 0) =
     (Inr ''asst_1'',
      \<lparr>client = True, cachedAssistantId = Some ''asst_1'', cachedThreadId = None,
       cachedContextHash = Some (hashContext ''a''), world = 1, trace = []\<rparr>) \<and>
   getThread_start numberingPlatform ''asst_1''
     \<lparr>client = True, cachedAssistantId = Some ''asst_1'', cachedThreadId = None,
      cachedContextHash = Some (hashContext ''a''), world = 1, trace = []\<rparr> =
     (Suspended (Inr ''thread_of_asst_1''),
      \<lparr>client = True, cachedAssistantId = Some ''asst_1'', cachedThreadId = None,
       cachedContextHash = Some (hashContext ''a''), world = 1, trace = []\<rparr>) \<and>
   getAssistant_start numberingPlatform ''b''
     \<lparr>client = True, cachedAssistantId = Some ''asst_1'', cachedThreadId = None,
      cachedContextHash = Some (hashContext ''a''), world = 1, trace = []\<rparr> =
     (Suspended (Inr ''asst_2''),
      \<lparr>client = True, cachedAssistantId = None, cachedThreadId = None,
       cachedContextHash = Some (hashContext ''a''), world = 2, trace = []\<rparr>) \<and>
   getThread_resume (Inr ''thread_of_asst_1'')
     \<lparr>client = True, cachedAssistantId = None, cachedThreadId = None,
      cachedContextHash = Some (hashContext ''a''), world = 2::nat, trace = []\<rparr> =
     (Inr ''thread_of_asst_1'',
      \<lparr>client = True, cachedAssistantId = None, cachedThreadId = Some ''thread_of_asst_1'',
       cachedContextHash = Some (hashContext ''a''), world = 2, trace = []\<rparr>) \<and>
   \<not> cacheInv
     \<lparr>client = True, cachedAssistantId = None, cachedThreadId = Some ''thread_of_asst_1'',
      cachedContextHash = Some (hashContext ''a''), world = 2::nat, trace = []\<rparr> \<and>
   getAssistant_resume ''b'' (Inr ''asst_2'')
     \<lparr>client = True, cachedAssistantId = None, cachedThreadId = Some ''thread_of_asst_1'',
      cachedContextHash = Some (hashContext ''a''), world = 2::nat, trace = []\<rparr> =
     (Inr ''asst_2'',
      \<lparr>client = True, cachedAssistantId = Some ''asst_2'', cachedThreadId = Some ''thread_of_asst_1'',
       cachedContextHash = Some (hashContext ''b''), world = 2, trace = []\<rparr>) \<and>
   getThread_start numberingPlatform ''asst_2''
     \<lparr>client = True, cachedAssistantId = Some ''asst_2'', cachedThreadId = Some ''thread_of_asst_1'',
      cachedContextHash = Some (hashContext ''b''), world = 2, trace = []\<rparr> =
     (Finished (Inr ''thread_of_asst_1''),
      \<lparr>client = True, cachedAssistantId = Some ''asst_2'', cachedThreadId = Some ''thread_of_asst_1'',
       cachedContextHash = Some (hashContext ''b''), world = 2, trace = []\<rparr>) \<and>
   \<not> cacheInv (snd (sendToModel emptyIdPlatform ''stop'' gemini (Some ''a'') (initialBackend 0)))"
  by code_simp

subsection \<open>The chat panel\<close>

lemma handleSend_command:
  assumes rc: "receivesCommand E s lib br"
    and run: "runCommand E lib br = (effects, None)"
  shows "handleSend E s = requestEffects E s lib @ effects @ [SetPending False]"
proof -
  from rc obtain response apiResponse where
    t: "trim (inputText s) \<noteq> []" and np: "\<not> isPending s" and l: "loadSampleLibrary E = Inr lib"
    and f: "fetch E (buildRequest E s lib (trim (inputText s))) = Inr response"
    and o: "ok response" and j: "json response = Inr apiResponse"
    and su: "truthy (getProp apiResponse ''success'')"
    and cr: "optChain (getProp apiResponse ''data'') ''commandResult'' = br"
    and tb: "truthy br"
    unfolding receivesCommand_def by blast
  from su have nn: "apiResponse \<noteq> Null" by auto
  have h: "handleCommandResult E lib apiResponse = effects"
    using cr tb run by (simp add: handleCommandResult_def Let_def)
  have "callApi E s (trim (inputText s)) =
          ([Fetch (buildRequest E s lib (trim (inputText s)))] @ effects, None)"
    using l f o j su nn h by (simp add: callApi_def Let_def)
  with t np show ?thesis
    by (simp add: handleSend_def Let_def requestEffects_def)
qed

text \<open>
  Claim C4. When the batch arrives and \<open>executeBatch\<close> returns a result with
  \<open>success = false\<close>, \<open>handleSend\<close> adds exactly one agent message, the result's
  message, and its status is \<open>error\<close> exactly when \<open>successCount\<close> is 0 and \<open>sent\<close>
  exactly when at least one action succeeded; no command id is recorded.
\<close>

theorem handleSend_failed_batch_status:
  assumes "batchArrives E s lib br r" and "\<not> batch_success r"
  shows "\<exists>st. handleSend E s =
           requestEffects E s lib @ [AddMessage agent (Str (batch_message r)) st, SetPending False] \<and>
           (st = error \<longleftrightarrow> successCount r = 0) \<and> (st = sent \<longleftrightarrow> successCount r > 0)"
proof -
  from assms have rc: "receivesCommand E s lib br" and b: "isBatch br"
    and x: "executeBatch E (batchDataOf br) lib = Inr r"
    by (simp_all add: batchArrives_def)
  let ?st = "if successCount r > 0 then sent else error"
  have "runCommand E lib br = ([AddMessage agent (Str (batch_message r)) ?st], None)"
    using b x assms(2) by (simp add: runCommand_def isBatch_def)
  from handleSend_command [OF rc this]
  have "handleSend E s =
      requestEffects E s lib @ [AddMessage agent (Str (batch_message r)) ?st, SetPending False]"
    by (simp only: append_Cons append_Nil)
  then show ?thesis
    by (intro exI [of _ ?st]) simp
qed


lemma example_receives:
  "truthy br \<Longrightarrow>
   receivesCommand (exampleEnv (exampleApiResponse br) r c) examplePanel ''library'' br"
  by (simp add: receivesCommand_def exampleEnv_def exampleApiResponse_def examplePanel_def
      trim_def isSpace_def charCode_def optChain_def)

lemma example_isBatch: "isBatch exampleBatch" and example_not_isBatch: "\<not> isBatch exampleSingle"
  by (simp_all add: isBatch_def exampleBatch_def exampleSingle_def optChain_def)

text \<open>One of two actions failed: \<open>sent\<close>. Both failed: \<open>error\<close>.\<close>

theorem handleSend_failed_batch_status_witness:
  "handleSend
     (exampleEnv (exampleApiResponse exampleBatch)
        \<lparr>batch_success = False, batch_message = ''1 of 2 actions failed'', successCount = 1,
         undoGroupId = None\<rparr>
        \<lparr>cmd_success = True, cmd_message = ''ok'', cmd_commandId = None\<rparr>)
     examplePanel =
   requestEffects
     (exampleEnv (exampleApiResponse exampleBatch)
        \<lparr>batch_success = False, batch_message = ''1 of 2 actions failed'', successCount = 1,
         undoGroupId = None\<rparr>
        \<lparr>cmd_success = True, cmd_message = ''ok'', cmd_commandId = None\<rparr>)
     examplePanel ''library'' @
   [AddMessage agent (Str ''1 of 2 actions failed'') sent, SetPending False] \<and>
   handleSend
     (exampleEnv (exampleApiResponse exampleBatch)
        \<lparr>batch_success = False, batch_message = ''2 of 2 actions failed'', successCount = 0,
         undoGroupId = None\<rparr>
        \<lparr>cmd_success = True, cmd_message = ''ok'', cmd_commandId = None\<rparr>)
     examplePanel =
   requestEffects
     (exampleEnv (exampleApiResponse exampleBatch)
        \<lparr>batch_success = False, batch_message = ''2 of 2 actions failed'', successCount = 0,
         undoGroupId = None\<rparr>
        \<lparr>cmd_success = True, cmd_message = ''ok'', cmd_commandId = None\<rparr>)
     examplePanel ''library'' @
   [AddMessage agent (Str ''2 of 2 actions failed'') error, SetPending False]"
proof -
  let ?c = "\<lparr>cmd_success = True, cmd_message = ''ok'', cmd_commandId = None\<rparr>"
  let ?r1 = "\<lparr>batch_success = False, batch_message = ''1 of 2 actions failed'', successCount = 1,
         undoGroupId = None\<rparr>"
  let ?r0 = "\<lparr>batch_success = False, batch_message = ''2 of 2 actions failed'', successCount = 0,
         undoGroupId = None\<rparr>"
  have tb: "truthy exampleBatch" by (simp add: exampleBatch_def)
  have a1: "batchArrives (exampleEnv (exampleApiResponse exampleBatch) ?r1 ?c) examplePanel
              ''library'' exampleBatch ?r1"
    using example_receives [OF tb] example_isBatch
    by (simp add: batchArrives_def) (simp add: exampleEnv_def)
  have a0: "batchArrives (exampleEnv (exampleApiResponse exampleBatch) ?r0 ?c) examplePanel
              ''library'' exampleBatch ?r0"
    using example_receives [OF tb] example_isBatch
    by (simp add: batchArrives_def) (simp add: exampleEnv_def)
  from handleSend_failed_batch_status [OF a1] have 1: "handleSend
     (exampleEnv (exampleApiResponse exampleBatch) ?r1 ?c) examplePanel =
   requestEffects (exampleEnv (exampleApiResponse exampleBatch) ?r1 ?c) examplePanel ''library'' @
   [AddMessage agent (Str ''1 of 2 actions failed'') sent, SetPending False]"
    by auto
  from handleSend_failed_batch_status [OF a0] have 0: "handleSend
     (exampleEnv (exampleApiResponse exampleBatch) ?r0 ?c) examplePanel =
   requestEffects (exampleEnv (exampleApiResponse exampleBatch) ?r0 ?c) examplePanel ''library'' @
   [AddMessage agent (Str ''2 of 2 actions failed'') error, SetPending False]"
    by auto
  from 1 0 show ?thesis by (rule conjI)
qed




subsection \<open>The system prompt\<close>

lemma runCommand_no_fetch: "Fetch req \<notin> set (fst (runCommand E lib br))"
  by (auto simp: runCommand_def split: sum.splits)

lemma handleCommandResult_no_fetch: "Fetch req \<notin> set (handleCommandResult E lib api)"
proof -
  obtain effs t where r: "runCommand E lib (optChain (getProp api ''data'') ''commandResult'') = (effs, t)"
    by (cases "runCommand E lib (optChain (getProp api ''data'') ''commandResult'')")
  with runCommand_no_fetch [of req E lib "optChain (getProp api ''data'') ''commandResult''"]
  have "Fetch req \<notin> set effs" by simp
  with r show ?thesis
    by (cases t) (simp_all add: handleCommandResult_def Let_def)
qed

lemma reportError_no_fetch: "Fetch req \<notin> set (reportError e)"
  by (cases e) (simp_all add: reportError_def Let_def)

lemma callApi_fetch:
  assumes "Fetch req \<in> set (fst (callApi E s um))"
  shows "\<exists>lib. loadSampleLibrary E = Inr lib \<and> req = buildRequest E s lib um"
proof (cases "loadSampleLibrary E")
  case (Inl e)
  with assms show ?thesis by (simp add: callApi_def)
next
  case (Inr lib)
  have "set (fst (callApi E s um)) \<subseteq>
          insert (Fetch (buildRequest E s lib um))
            (\<Union>api. set (handleCommandResult E lib api))"
    using Inr by (auto simp: callApi_def Let_def split: sum.splits if_splits)
  with assms handleCommandResult_no_fetch [of req E lib] have "req = buildRequest E s lib um"
    by auto
  with Inr show ?thesis by simp
qed

lemma handleSend_fetch:
  assumes "Fetch req \<in> set (handleSend E s)"
  shows "\<exists>lib. loadSampleLibrary E = Inr lib \<and> req = buildRequest E s lib (trim (inputText s))"
proof -
  obtain effs t where c: "callApi E s (trim (inputText s)) = (effs, t)"
    by (cases "callApi E s (trim (inputText s))")
  from assms c have "Fetch req \<in> set effs"
    using reportError_no_fetch [of req]
    by (cases t) (auto simp: handleSend_def Let_def split: if_splits)
  with c callApi_fetch [of req E s "trim (inputText s)"] show ?thesis by simp
qed

lemma DEFAULT_SYSTEM_PROMPT_nonempty: "DEFAULT_SYSTEM_PROMPT \<noteq> []"
  by (simp add: DEFAULT_SYSTEM_PROMPT_def)

lemma effectiveSystemPrompt_cases:
  "effectiveSystemPrompt sp = (case sp of None \<Rightarrow> DEFAULT_SYSTEM_PROMPT
     | Some p \<Rightarrow> if p = [] then DEFAULT_SYSTEM_PROMPT else p)"
  by (simp add: effectiveSystemPrompt_def truthyStr_def split: option.splits)

lemma recording_attempt:
  "\<exists>r st1. attemptOnce recordingPlatform ''stop'' p (initialBackend []) = (Inr r, st1) \<and> world st1 = p"
proof -
  have c: "classifyTask ''stop'' = technical" by code_simp
  show ?thesis
    by (simp add: attemptOnce_def getAssistant_def getThread_def getClient_def recordingPlatform_def
        initialBackend_def truthyStr_def Let_def c)
qed

lemma recording_send:
  "world (snd (sendToModel recordingPlatform ''stop'' gemini sp (initialBackend []))) =
     effectiveSystemPrompt sp"
proof -
  have key: "truthyStr (BACKBOARD_API_KEY recordingPlatform)"
    by (simp add: recordingPlatform_def truthyStr_def)
  from recording_attempt [of "effectiveSystemPrompt sp"] obtain r st1 where
    a: "attemptOnce recordingPlatform ''stop'' (effectiveSystemPrompt sp) (initialBackend []) = (Inr r, st1)"
    and w: "world st1 = effectiveSystemPrompt sp" by blast
  have "sendToModel recordingPlatform ''stop'' gemini sp (initialBackend []) = (Inr r, st1)"
    using a by (simp add: sendToModel_live [OF key] sendLoop_success)
  with w show ?thesis by simp
qed

text \<open>
  Claim C7, amended. Every request that \<open>handleSend\<close> sends is the POST whose body
  carries, as \<open>systemPrompt\<close>, \<open>generateSystemPrompt (buildDAWContext project
  sampleLibrary)\<close> for the project in the store at that time. \<open>sendToModel\<close> works with
  \<open>systemPrompt || DEFAULT_SYSTEM_PROMPT\<close>: a non-empty argument is used as it is (it is
  the description of an assistant that has to be created); the default takes its place
  when no argument is given and also when the argument is the empty string.
\<close>

theorem system_prompt_flow:
  "(Fetch req \<in> set (handleSend E s) \<longrightarrow>
      (\<exists>lib. loadSampleLibrary E = Inr lib \<and> httpMethod req = ''POST'' \<and> url req = ''/api/chat'' \<and>
             body_systemPrompt (body req) =
               generateSystemPrompt E (buildDAWContext E (project E) lib))) \<and>
   (p \<noteq> [] \<longrightarrow> effectiveSystemPrompt (Some p) = p) \<and>
   effectiveSystemPrompt None = DEFAULT_SYSTEM_PROMPT \<and>
   effectiveSystemPrompt (Some []) = DEFAULT_SYSTEM_PROMPT \<and>
   (truthyStr (BACKBOARD_API_KEY P) \<longrightarrow>
      sendToModel P text model sp st = sendLoop P text model (effectiveSystemPrompt sp) 0 st) \<and>
   (truthyStr (BACKBOARD_API_KEY P) \<and> \<not> truthyStr (cachedAssistantId st) \<longrightarrow>
      fst (getAssistant P (effectiveSystemPrompt sp) st) =
        fst (createAssistant P ''Pulse Studio Music Copilot'' (effectiveSystemPrompt sp) (world st)))"
proof (intro conjI impI)
  assume "Fetch req \<in> set (handleSend E s)"
  from handleSend_fetch [OF this] obtain lib where
    l: "loadSampleLibrary E = Inr lib" and r: "req = buildRequest E s lib (trim (inputText s))"
    by blast
  from r have "httpMethod req = ''POST'' \<and> url req = ''/api/chat'' \<and>
     body_systemPrompt (body req) = generateSystemPrompt E (buildDAWContext E (project E) lib)"
    by (simp add: buildRequest_def Let_def)
  with l show "\<exists>lib. loadSampleLibrary E = Inr lib \<and> httpMethod req = ''POST'' \<and> url req = ''/api/chat'' \<and>
     body_systemPrompt (body req) = generateSystemPrompt E (buildDAWContext E (project E) lib)"
    by blast
next
  assume "p \<noteq> []"
  then show "effectiveSystemPrompt (Some p) = p" by (simp add: effectiveSystemPrompt_cases)
next
  show "effectiveSystemPrompt None = DEFAULT_SYSTEM_PROMPT" by (simp add: effectiveSystemPrompt_cases)
next
  show "effectiveSystemPrompt (Some []) = DEFAULT_SYSTEM_PROMPT"
    by (simp add: effectiveSystemPrompt_cases)
next
  assume "truthyStr (BACKBOARD_API_KEY P)"
  then show "sendToModel P text model sp st = sendLoop P text model (effectiveSystemPrompt sp) 0 st"
    by (rule sendToModel_live)
next
  assume "truthyStr (BACKBOARD_API_KEY P) \<and> \<not> truthyStr (cachedAssistantId st)"
  then show "fst (getAssistant P (effectiveSystemPrompt sp) st) =
        fst (createAssistant P ''Pulse Studio Music Copilot'' (effectiveSystemPrompt sp) (world st))"
    by (simp add: getAssistant_creates)
qed

text \<open>
  The request of the example panel carries the prompt built from the example project, and
  a prompt given to \<open>sendToModel\<close> reaches the service as the assistant's description.
\<close>

theorem system_prompt_flow_witness:
  "Fetch (buildRequest (exampleEnv (exampleApiResponse exampleSingle)
            \<lparr>batch_success = True, batch_message = ''Applied 2 actions'', successCount = 2,
             undoGroupId = None\<rparr>
            \<lparr>cmd_success = True, cmd_message = ''Playing'', cmd_commandId = None\<rparr>)
          examplePanel ''library'' ''make a beat'')
     \<in> set (handleSend (exampleEnv (exampleApiResponse exampleSingle)
            \<lparr>batch_success = True, batch_message = ''Applied 2 actions'', successCount = 2,
             undoGroupId = None\<rparr>
            \<lparr>cmd_success = True, cmd_message = ''Playing'', cmd_commandId = None\<rparr>) examplePanel) \<and>
   body_systemPrompt (body (buildRequest (exampleEnv (exampleApiResponse exampleSingle)
            \<lparr>batch_success = True, batch_message = ''Applied 2 actions'', successCount = 2,
             undoGroupId = None\<rparr>
            \<lparr>cmd_success = True, cmd_message = ''Playing'', cmd_commandId = None\<rparr>)
          examplePanel ''library'' ''make a beat'')) =
     ''You are the copilot of: project at 120 bpm with library'' \<and>
   effectiveSystemPrompt (Some ''You are the copilot of: project at 120 bpm with library'') =
     ''You are the copilot of: project at 120 bpm with library'' \<and>
   world (snd (sendToModel recordingPlatform ''stop'' gemini
                 (Some ''You are the copilot of: project at 120 bpm with library'')
                 (initialBackend []))) =
     ''You are the copilot of: project at 120 bpm with library''"
proof -
  let ?E = "exampleEnv (exampleApiResponse exampleSingle)
            \<lparr>batch_success = True, batch_message = ''Applied 2 actions'', successCount = 2,
             undoGroupId = None\<rparr>
            \<lparr>cmd_success = True, cmd_message = ''Playing'', cmd_commandId = None\<rparr>"
  let ?req = "buildRequest ?E examplePanel ''library'' ''make a beat''"
  let ?p = "''You are the copilot of: project at 120 bpm with library''"
  have t: "trim (inputText examplePanel) = ''make a beat''"
    by (simp add: examplePanel_def trim_def isSpace_def charCode_def)
  have "truthy exampleSingle" by (simp add: exampleSingle_def)
  from example_receives [OF this]
  have rc: "receivesCommand ?E examplePanel ''library'' exampleSingle" .
  have "runCommand ?E ''library'' exampleSingle =
      ([AddMessage agent (Str ''Playing'') sent], None)"
    using example_not_isBatch
    by (simp add: runCommand_def isBatch_def exampleEnv_def truthyStr_def)
  from handleSend_command [OF rc this]
  have m: "Fetch ?req \<in> set (handleSend ?E examplePanel)"
    by (simp add: requestEffects_def t)
  have lib: "loadSampleLibrary ?E = Inr ''library''" by (simp add: exampleEnv_def)
  have gen: "generateSystemPrompt ?E (buildDAWContext ?E (project ?E) ''library'') = ?p"
    by (simp add: exampleEnv_def)
  have w: "world (snd (sendToModel recordingPlatform ''stop'' gemini (Some ?p) (initialBackend []))) = ?p"
    by (simp add: recording_send effectiveSystemPrompt_cases)
  note F = system_prompt_flow [of ?req ?E examplePanel ?p recordingPlatform "''stop''" gemini
      "Some ?p" "initialBackend []"]
  from F [THEN conjunct1] m lib gen have 1: "body_systemPrompt (body ?req) = ?p" by auto
  from F [THEN conjunct2, THEN conjunct1] have 2: "effectiveSystemPrompt (Some ?p) = ?p" by simp
  from m 1 2 w show ?thesis by blast
qed

text \<open>
  Claim C7 as stated fails for the empty string: it is an argument that was given, and
  the assistant is created with the default prompt.
\<close>

theorem system_prompt_empty_counterexample:
  "effectiveSystemPrompt (Some []) = DEFAULT_SYSTEM_PROMPT \<and> DEFAULT_SYSTEM_PROMPT \<noteq> [] \<and>
   world (snd (sendToModel recordingPlatform ''stop'' gemini (Some []) (initialBackend []))) =
     DEFAULT_SYSTEM_PROMPT"
proof -
  have e: "effectiveSystemPrompt (Some []) = DEFAULT_SYSTEM_PROMPT"
    by (simp add: effectiveSystemPrompt_cases)
  from e DEFAULT_SYSTEM_PROMPT_nonempty recording_send [of "Some []"] show ?thesis by simp
qed

end
